theory Spec2Isabelle
  imports Main "HOL-Library.Word"
begin

section \<open>JavaScript strings\<close>

text \<open>
  A JavaScript string is a sequence of 16-bit UTF-16 code units; \<open>length\<close>, \<open>split\<close>,
  \<open>trim\<close> and the regular expression \<open>/[\r\n]/\<close> all work on code units.  The
  function \<open>js\<close> writes an ASCII literal as code units.
\<close>

type_synonym jsstring = "16 word list"

definition js :: "string \<Rightarrow> jsstring" where
  "js s = map of_char s"

definition CR :: "16 word" where "CR = 0x0D"
definition LF :: "16 word" where "LF = 0x0A"
definition comma :: "16 word" where "comma = 0x2C"
definition apostrophe :: "16 word" where "apostrophe = 0x27"

text \<open>\<open>Array.prototype.join\<close> on an array of strings.\<close>

fun join :: "jsstring \<Rightarrow> jsstring list \<Rightarrow> jsstring" where
  "join sep [] = []"
| "join sep [x] = x"
| "join sep (x # y # ys) = x @ sep @ join sep (y # ys)"

text \<open>
  \<open>String.prototype.split\<close> with a separator of one code unit: a left-to-right scan
  that closes the current piece at every separator.  The empty string gives one empty piece.
\<close>

fun split_scan :: "16 word \<Rightarrow> jsstring \<Rightarrow> jsstring \<Rightarrow> jsstring list" where
  "split_scan sep cur [] = [cur]"
| "split_scan sep cur (c # cs) =
     (if c = sep then cur # split_scan sep [] cs else split_scan sep (cur @ [c]) cs)"

definition split_on :: "16 word \<Rightarrow> jsstring \<Rightarrow> jsstring list" where
  "split_on sep s = split_scan sep [] s"

text \<open>
  \<open>String.prototype.trim\<close> removes WhiteSpace and LineTerminator code points from both
  ends: TAB, LF, VT, FF, CR, SPACE, NBSP, U+1680, U+2000 to U+200A, U+2028, U+2029, U+202F,
  U+205F, U+3000 and U+FEFF.  All of them are single code units.
\<close>

definition isWhiteSpace :: "16 word \<Rightarrow> bool" where
  "isWhiteSpace c \<longleftrightarrow>
     c = 0x09 \<or> c = 0x0A \<or> c = 0x0B \<or> c = 0x0C \<or> c = 0x0D \<or> c = 0x20 \<or> c = 0xA0 \<or>
     c = 0x1680 \<or> (0x2000 \<le> c \<and> c \<le> 0x200A) \<or> c = 0x2028 \<or> c = 0x2029 \<or>
     c = 0x202F \<or> c = 0x205F \<or> c = 0x3000 \<or> c = 0xFEFF"

definition trim :: "jsstring \<Rightarrow> jsstring" where
  "trim s = rev (dropWhile isWhiteSpace (rev (dropWhile isWhiteSpace s)))"

text \<open>\<open>HEADER_INJECTION_PATTERN.test(value)\<close> for the pattern \<open>/[\r\n]/\<close>.\<close>

definition HEADER_INJECTION_PATTERN_test :: "jsstring \<Rightarrow> bool" where
  "HEADER_INJECTION_PATTERN_test v \<longleftrightarrow> CR \<in> set v \<or> LF \<in> set v"

section \<open>Platform functions\<close>

text \<open>
  Functions of the JavaScript runtime and of the zod library that the code calls and whose
  tables are not part of the repository are parameters of the model:
  \<open>String.prototype.toLowerCase\<close>, the conversion of an integral number to a string in a
  template literal, \<open>new Date(t).toISOString()\<close>, and zod's default messages for a value
  of the wrong type and for a string that is too long.
\<close>

datatype jsvalue =
  JUndefined | JNull | JBoolean bool | JNumber | JString jsstring | JArray | JObject

record platform =
  toLowerCase :: "jsstring \<Rightarrow> jsstring"
  numberToString :: "int \<Rightarrow> jsstring"
  toISOString :: "int \<Rightarrow> jsstring"
  zodInvalidType :: "jsstring \<Rightarrow> jsvalue \<Rightarrow> jsstring"
  zodTooBig :: "nat \<Rightarrow> jsstring"

text \<open>
  An instance for concrete runs: lower-casing of the ASCII letters (which is what
  \<open>toLowerCase\<close> does on ASCII strings), decimal digits for numbers, and short stand-ins
  for the date format and the zod messages.
\<close>

definition asciiLower :: "16 word \<Rightarrow> 16 word" where
  "asciiLower c = (if 0x41 \<le> c \<and> c \<le> 0x5A then c + 0x20 else c)"

fun decimal :: "nat \<Rightarrow> jsstring" where
  "decimal n = (if n < 10 then [0x30 + of_nat n] else decimal (n div 10) @ [0x30 + of_nat (n mod 10)])"

declare decimal.simps [simp del]

definition showInt :: "int \<Rightarrow> jsstring" where
  "showInt i = (if i < 0 then 0x2D # decimal (nat (- i)) else decimal (nat i))"

definition examplePlatform :: platform where
  "examplePlatform =
     \<lparr> toLowerCase = map asciiLower,
       numberToString = showInt,
       toISOString = (\<lambda>t. js ''T'' @ showInt t),
       zodInvalidType = (\<lambda>expected received. js ''Expected '' @ expected),
       zodTooBig = (\<lambda>n. js ''Too long'') \<rparr>"

section \<open>Configuration\<close>

text \<open>
  \<open>allowedTlsVersions\<close> and \<open>normalizeTlsVersion\<close>; \<open>PROTONMAIL_TLS_MIN_VERSION\<close> is the
  environment variable or, when it is unset or empty, \<open>"TLSv1.2"\<close>.
\<close>

definition allowedTlsVersions :: "jsstring list" where
  "allowedTlsVersions = [js ''TLSv1'', js ''TLSv1.1'', js ''TLSv1.2'', js ''TLSv1.3'']"

definition normalizeTlsVersion :: "jsstring \<Rightarrow> jsstring" where
  "normalizeTlsVersion version =
     (if version \<in> set allowedTlsVersions then version else js ''TLSv1.2'')"

definition PROTONMAIL_TLS_MIN_VERSION :: "jsstring option \<Rightarrow> jsstring" where
  "PROTONMAIL_TLS_MIN_VERSION env =
     (case env of None \<Rightarrow> js ''TLSv1.2'' | Some v \<Rightarrow> if v = [] then js ''TLSv1.2'' else v)"

definition TLS_MIN_VERSION :: "jsstring option \<Rightarrow> jsstring" where
  "TLS_MIN_VERSION env = normalizeTlsVersion (PROTONMAIL_TLS_MIN_VERSION env)"

text \<open>
  \<open>RATE_LIMIT_PER_MINUTE\<close> is the result of \<open>parseInt\<close>: an integral number, \<open>NaN\<close>, or
  an infinity for a digit string beyond the range of a double; the guard
  \<open>Number.isFinite(l) && l > 0\<close> holds for \<open>Finite l\<close> with \<open>0 < l\<close> only.
  \<open>ALLOW_LIST\<close> is a \<open>Set\<close> of strings, kept as the list of its entries: \<open>has\<close> is
  membership and \<open>size\<close> counts the distinct entries; the order of the entries is never
  read.
\<close>

datatype jsnumber = Finite int | NaN | PosInfinity | NegInfinity

record config =
  RATE_LIMIT_PER_MINUTE :: jsnumber
  ALLOW_LIST :: "jsstring list"

definition parseAllowList :: "platform \<Rightarrow> jsstring \<Rightarrow> jsstring list" where
  "parseAllowList pf env =
     remdups (filter (\<lambda>entry. entry \<noteq> [])
       (map (\<lambda>entry. toLowerCase pf (trim entry)) (split_on comma env)))"

definition Set_has :: "jsstring list \<Rightarrow> jsstring \<Rightarrow> bool" where
  "Set_has entries x \<longleftrightarrow> x \<in> set entries"

definition Set_size :: "jsstring list \<Rightarrow> nat" where
  "Set_size entries = length (remdups entries)"

definition allowListEnabled :: "config \<Rightarrow> bool" where
  "allowListEnabled cfg \<longleftrightarrow> Set_size (ALLOW_LIST cfg) > 0"

section \<open>Errors\<close>

datatype ErrorCode = InvalidParams | InvalidRequest | InternalError | MethodNotFound

text \<open>\<open>new McpError(code, message)\<close>: a thrown error is the \<open>Inl\<close> of a result.\<close>

datatype McpError = McpError (code: ErrorCode) (message: jsstring)

section \<open>Schema validation\<close>

text \<open>
  The \<open>arguments\<close> of a tool call: absent or not an object (rejected by the handler's
  first check), an object that is not a plain record such as an array (rejected by
  \<open>z.object\<close> with an issue at the empty path), or a plain object.  Of a plain object
  only the six keys of \<open>sendEmailSchema\<close> matter, an absent key reading as
  \<open>undefined\<close>; \<open>z.object\<close> drops every other key.
\<close>

record rawArgs =
  raw_to :: jsvalue
  raw_subject :: jsvalue
  raw_body :: jsvalue
  raw_isHtml :: jsvalue
  raw_cc :: jsvalue
  raw_bcc :: jsvalue

datatype toolArguments = NoArguments | NonPlainObject | PlainObject rawArgs

text \<open>The value of \<open>z.infer<typeof sendEmailSchema>\<close>.\<close>

record parsedArgs =
  p_to :: jsstring
  p_subject :: jsstring
  p_body :: jsstring
  p_isHtml :: "bool option"
  p_cc :: "jsstring option"
  p_bcc :: "jsstring option"

text \<open>A zod issue: its path joined with \<open>"."\<close>, and its message.\<close>

datatype zodIssue = ZodIssue (path: jsstring) (issueMessage: jsstring)

text \<open>\<open>z.string().min(1, minMessage).max(maxLength)\<close> at the key \<open>key\<close>.\<close>

definition zodString ::
  "platform \<Rightarrow> jsstring \<Rightarrow> jsstring \<Rightarrow> nat \<Rightarrow> jsvalue \<Rightarrow> zodIssue list + jsstring" where
  "zodString pf key minMessage maxLength v =
     (case v of
        JString s \<Rightarrow>
          if length s < 1 then Inl [ZodIssue key minMessage]
          else if length s > maxLength then Inl [ZodIssue key (zodTooBig pf maxLength)]
          else Inr s
      | _ \<Rightarrow> Inl [ZodIssue key (zodInvalidType pf (js ''string'') v)])"

text \<open>\<open>z.string().optional()\<close> and \<open>z.boolean().optional()\<close>.\<close>

definition zodOptionalString ::
  "platform \<Rightarrow> jsstring \<Rightarrow> jsvalue \<Rightarrow> zodIssue list + jsstring option" where
  "zodOptionalString pf key v =
     (case v of
        JUndefined \<Rightarrow> Inr None
      | JString s \<Rightarrow> Inr (Some s)
      | _ \<Rightarrow> Inl [ZodIssue key (zodInvalidType pf (js ''string'') v)])"

definition zodOptionalBoolean ::
  "platform \<Rightarrow> jsstring \<Rightarrow> jsvalue \<Rightarrow> zodIssue list + bool option" where
  "zodOptionalBoolean pf key v =
     (case v of
        JUndefined \<Rightarrow> Inr None
      | JBoolean b \<Rightarrow> Inr (Some b)
      | _ \<Rightarrow> Inl [ZodIssue key (zodInvalidType pf (js ''boolean'') v)])"

fun issuesOf :: "zodIssue list + 'a \<Rightarrow> zodIssue list" where
  "issuesOf (Inl is) = is"
| "issuesOf (Inr v) = []"

text \<open>
  \<open>sendEmailSchema.parse\<close>: every key is checked, in the order of the schema, and the
  issues of all keys are collected.
\<close>

definition sendEmailSchema_parse ::
  "platform \<Rightarrow> toolArguments \<Rightarrow> zodIssue list + parsedArgs" where
  "sendEmailSchema_parse pf args =
     (case args of
        PlainObject a \<Rightarrow>
          (let t = zodString pf (js ''to'') ([apostrophe] @ js ''to'' @ [apostrophe] @ js '' is required'') 2048 (raw_to a);
               s = zodString pf (js ''subject'') ([apostrophe] @ js ''subject'' @ [apostrophe] @ js '' is required'') 512 (raw_subject a);
               b = zodString pf (js ''body'') ([apostrophe] @ js ''body'' @ [apostrophe] @ js '' is required'') 20000 (raw_body a);
               h = zodOptionalBoolean pf (js ''isHtml'') (raw_isHtml a);
               c = zodOptionalString pf (js ''cc'') (raw_cc a);
               bc = zodOptionalString pf (js ''bcc'') (raw_bcc a)
           in case (t, s, b, h, c, bc) of
                (Inr t', Inr s', Inr b', Inr h', Inr c', Inr bc') \<Rightarrow>
                   Inr \<lparr> p_to = t', p_subject = s', p_body = b', p_isHtml = h',
                         p_cc = c', p_bcc = bc' \<rparr>
              | _ \<Rightarrow> Inl (issuesOf t @ issuesOf s @ issuesOf b @ issuesOf h @ issuesOf c @ issuesOf bc))
      | NonPlainObject \<Rightarrow> Inl [ZodIssue [] (zodInvalidType pf (js ''object'') JArray)]
      | NoArguments \<Rightarrow> Inl [ZodIssue [] (zodInvalidType pf (js ''object'') JUndefined)])"

text \<open>
  \<open>parseSendEmailArgs\<close>: a zod error becomes an \<open>InvalidParams\<close> error whose message
  lists the issues, an issue without a path under the name \<open>input\<close>.
\<close>

definition issueText :: "zodIssue \<Rightarrow> jsstring" where
  "issueText issue =
     (if path issue = [] then js ''input'' else path issue) @ js '': '' @ issueMessage issue"

definition parseSendEmailArgs :: "platform \<Rightarrow> toolArguments \<Rightarrow> McpError + parsedArgs" where
  "parseSendEmailArgs pf args =
     (case sendEmailSchema_parse pf args of
        Inr parsed \<Rightarrow> Inr parsed
      | Inl issues \<Rightarrow> Inl (McpError InvalidParams (join (js ''; '') (map issueText issues))))"

section \<open>Normalization\<close>

record NormalizedEmailArgs =
  n_to :: "jsstring list"
  n_subject :: jsstring
  n_body :: jsstring
  n_isHtml :: bool
  n_cc :: "jsstring list"
  n_bcc :: "jsstring list"

definition newlineMessage :: "jsstring \<Rightarrow> jsstring" where
  "newlineMessage fieldName =
     [apostrophe] @ fieldName @ [apostrophe] @ js '' cannot include newline characters''"

definition sanitizeHeaderField :: "jsstring \<Rightarrow> jsstring \<Rightarrow> McpError + jsstring" where
  "sanitizeHeaderField v fieldName =
     (if HEADER_INJECTION_PATTERN_test v
      then Inl (McpError InvalidParams (newlineMessage fieldName))
      else Inr (trim v))"

text \<open>
  \<open>normalizeRecipientList\<close>: \<open>!rawValue\<close> holds for \<open>undefined\<close> and for the empty
  string.
\<close>

definition normalizeRecipientList :: "jsstring option \<Rightarrow> jsstring \<Rightarrow> McpError + jsstring list" where
  "normalizeRecipientList rawValue fieldName =
     (case rawValue of
        None \<Rightarrow> Inr []
      | Some v \<Rightarrow>
          if v = [] then Inr []
          else if HEADER_INJECTION_PATTERN_test v
          then Inl (McpError InvalidParams (newlineMessage fieldName))
          else Inr (filter (\<lambda>entry. length entry > 0) (map trim (split_on comma v))))"

definition normalizeEmailArgs :: "parsedArgs \<Rightarrow> McpError + NormalizedEmailArgs" where
  "normalizeEmailArgs rawArgs =
     (case normalizeRecipientList (Some (p_to rawArgs)) (js ''to'') of
        Inl e \<Rightarrow> Inl e
      | Inr toList \<Rightarrow>
          if length toList = 0
          then Inl (McpError InvalidParams (js ''At least one recipient is required''))
          else
            (case normalizeRecipientList (p_cc rawArgs) (js ''cc'') of
               Inl e \<Rightarrow> Inl e
             | Inr ccList \<Rightarrow>
                 (case normalizeRecipientList (p_bcc rawArgs) (js ''bcc'') of
                    Inl e \<Rightarrow> Inl e
                  | Inr bccList \<Rightarrow>
                      (case sanitizeHeaderField (p_subject rawArgs) (js ''subject'') of
                         Inl e \<Rightarrow> Inl e
                       | Inr subject \<Rightarrow>
                           Inr \<lparr> n_to = toList, n_subject = subject, n_body = p_body rawArgs,
                                 n_isHtml = (p_isHtml rawArgs = Some True),
                                 n_cc = ccList, n_bcc = bccList \<rparr>))))"

section \<open>Allow list\<close>

definition enforceAllowList :: "platform \<Rightarrow> config \<Rightarrow> jsstring list \<Rightarrow> McpError + unit" where
  "enforceAllowList pf cfg recipients =
     (if \<not> allowListEnabled cfg then Inr ()
      else
        (let disallowed =
               filter (\<lambda>recipient. \<not> Set_has (ALLOW_LIST cfg) (toLowerCase pf recipient)) recipients
         in if length disallowed > 0
            then Inl (McpError InvalidRequest
                   (js ''Recipient(s) not permitted by allow list: '' @ join (js '', '') disallowed))
            else Inr ()))"

definition formatRecipientField :: "jsstring list \<Rightarrow> jsstring option" where
  "formatRecipientField list = (if length list \<noteq> 0 then Some (join (js '', '') list) else None)"

section \<open>Rate limiter\<close>

text \<open>
  \<open>rateLimiterState\<close>: both fields are JavaScript numbers holding integers (a clock
  reading in milliseconds and a counter that starts at 0 and grows by 1, exact far beyond
  any reachable count), modelled as \<open>int\<close>.
\<close>

record rateLimiterState =
  windowStart :: int
  count :: int

definition rateLimitMessage :: "platform \<Rightarrow> int \<Rightarrow> jsstring" where
  "rateLimitMessage pf l =
     js ''Rate limit exceeded ('' @ numberToString pf l @ js '' emails per minute)''"

text \<open>
  \<open>checkRateLimit\<close>, with the reading of \<open>Date.now()\<close> as the argument \<open>now\<close>.  The
  state is returned also when the call throws: a rollover done before the throw stays.
\<close>

definition checkRateLimit ::
  "platform \<Rightarrow> config \<Rightarrow> int \<Rightarrow> rateLimiterState \<Rightarrow> (McpError + unit) \<times> rateLimiterState" where
  "checkRateLimit pf cfg now st =
     (case RATE_LIMIT_PER_MINUTE cfg of
        Finite l \<Rightarrow>
          if l \<le> 0 then (Inr (), st)
          else
            (let st1 = (if now - windowStart st \<ge> 60000
                        then st\<lparr>windowStart := now, count := 0\<rparr> else st)
             in if count st1 \<ge> l
                then (Inl (McpError InvalidRequest (rateLimitMessage pf l)), st1)
                else (Inr (), st1\<lparr>count := count st1 + 1\<rparr>))
      | _ \<Rightarrow> (Inr (), st))"

section \<open>Email service\<close>

text \<open>
  \<open>EmailMessage\<close> is what the handler passes to \<open>EmailService.sendEmail\<close>;
  \<open>MailOptions\<close> is what that method passes to the transporter's \<open>sendMail\<close>.  The
  transporter is outside the program: its answer to a call is an input of the model, either
  a resolved \<open>info\<close> object, of which only \<open>messageId\<close> is read, or a rejection, of
  which only the text \<open>error instanceof Error ? error.message : String(error)\<close> is read.
\<close>

record EmailMessage =
  m_to :: jsstring
  m_subject :: jsstring
  m_body :: jsstring
  m_isHtml :: bool
  m_cc :: "jsstring option"
  m_bcc :: "jsstring option"

record MailOptions =
  o_from :: jsstring
  o_to :: jsstring
  o_cc :: "jsstring option"
  o_bcc :: "jsstring option"
  o_subject :: jsstring
  o_text :: "jsstring option"
  o_html :: "jsstring option"

datatype transportAnswer = Resolved "jsstring option" | Rejected jsstring

definition EmailService_sendEmail ::
  "jsstring \<Rightarrow> (MailOptions \<Rightarrow> transportAnswer) \<Rightarrow> EmailMessage \<Rightarrow> transportAnswer \<times> MailOptions list" where
  "EmailService_sendEmail fromEmail sendMail msg =
     (let opts = \<lparr> o_from = fromEmail, o_to = m_to msg, o_cc = m_cc msg, o_bcc = m_bcc msg,
                   o_subject = m_subject msg,
                   o_text = (if \<not> m_isHtml msg then Some (m_body msg) else None),
                   o_html = (if m_isHtml msg then Some (m_body msg) else None) \<rparr>
      in (sendMail opts, [opts]))"

section \<open>Server state and the world of one call\<close>

datatype LastSendResult =
  SendSuccess (timestamp: int) (details: "jsstring option")
| SendError (timestamp: int) (error: jsstring)

record serverState =
  limiter :: rateLimiterState
  lastSendResult :: "LastSendResult option"

text \<open>
  What one tool call reads from outside the program: the clock when \<open>checkRateLimit\<close>
  runs, the transporter, the clock when the outcome is recorded, the result of the
  transporter's \<open>verify\<close> (\<open>None\<close> when it resolves, the error text when it rejects), and
  the account name \<open>PROTONMAIL_USERNAME\<close>.  A call is handled from its start to its end
  before the next one starts.
\<close>

record world =
  nowAtLimit :: int
  sendMail :: "MailOptions \<Rightarrow> transportAnswer"
  nowAtRecord :: int
  verify :: "jsstring option"
  fromEmail :: jsstring

section \<open>Health report\<close>

definition smtpStatus :: "jsstring option \<Rightarrow> jsstring" where
  "smtpStatus v = (case v of None \<Rightarrow> js ''ok'' | Some msg \<Rightarrow> js ''error: '' @ msg)"

definition rateLimitInfo :: "platform \<Rightarrow> config \<Rightarrow> serverState \<Rightarrow> jsstring" where
  "rateLimitInfo pf cfg s =
     (case RATE_LIMIT_PER_MINUTE cfg of
        Finite l \<Rightarrow>
          if l > 0
          then numberToString pf (count (limiter s)) @ js ''/'' @ numberToString pf l @
               js '' in current minute window''
          else js ''disabled''
      | _ \<Rightarrow> js ''disabled'')"

definition allowListInfo :: "platform \<Rightarrow> config \<Rightarrow> jsstring" where
  "allowListInfo pf cfg =
     (if allowListEnabled cfg
      then js ''enabled ('' @ numberToString pf (int (Set_size (ALLOW_LIST cfg))) @ js '' entries)''
      else js ''disabled'')"

text \<open>An absent or empty \<open>details\<close> is falsy and prints nothing.\<close>

definition lastSendInfo :: "platform \<Rightarrow> LastSendResult option \<Rightarrow> jsstring" where
  "lastSendInfo pf r =
     (case r of
        None \<Rightarrow> js ''no attempts yet''
      | Some (SendSuccess t d) \<Rightarrow>
          js ''success at '' @ toISOString pf t @
          (case d of
             None \<Rightarrow> []
           | Some x \<Rightarrow> if x = [] then [] else js '' ('' @ x @ js '')'')
      | Some (SendError t e) \<Rightarrow> js ''error at '' @ toISOString pf t @ js '': '' @ e)"

definition buildHealthReport :: "platform \<Rightarrow> config \<Rightarrow> world \<Rightarrow> serverState \<Rightarrow> jsstring" where
  "buildHealthReport pf cfg w s =
     join [LF]
       [js ''SMTP: '' @ smtpStatus (verify w),
        js ''Rate limit: '' @ rateLimitInfo pf cfg s,
        js ''Allow list: '' @ allowListInfo pf cfg,
        js ''Last send: '' @ lastSendInfo pf (lastSendResult s)]"

section \<open>The tool handler\<close>

definition SEND_TOOL_NAME :: jsstring where "SEND_TOOL_NAME = js ''send_email''"
definition HEALTH_TOOL_NAME :: jsstring where "HEALTH_TOOL_NAME = js ''health_check''"

definition successText :: "NormalizedEmailArgs \<Rightarrow> jsstring" where
  "successText n =
     js ''Email sent successfully to '' @ join (js '', '') (n_to n) @
     (if length (n_cc n) \<noteq> 0 then js '' (CC: '' @ join (js '', '') (n_cc n) @ js '')'' else []) @
     (if length (n_bcc n) \<noteq> 0 then js '' (BCC: '' @ join (js '', '') (n_bcc n) @ js '')'' else []) @
     js ''.''"

text \<open>
  The result of a call: what the caller gets (an error or the text of the content), the
  state afterwards, and the calls made to the transporter's \<open>sendMail\<close>.
\<close>

type_synonym callResult = "(McpError + jsstring) \<times> serverState \<times> MailOptions list"

text \<open>The \<open>try\<close> block of the \<open>send_email\<close> case, entered after admission.\<close>

definition transportStep ::
  "world \<Rightarrow> NormalizedEmailArgs \<Rightarrow> serverState \<Rightarrow> callResult" where
  "transportStep w n s =
     (case EmailService_sendEmail (fromEmail w) (sendMail w)
             \<lparr> m_to = join (js '', '') (n_to n), m_subject = n_subject n, m_body = n_body n,
               m_isHtml = n_isHtml n, m_cc = formatRecipientField (n_cc n),
               m_bcc = formatRecipientField (n_bcc n) \<rparr> of
        (Resolved messageId, calls) \<Rightarrow>
          (Inr (successText n),
           s\<lparr>lastSendResult := Some (SendSuccess (nowAtRecord w) messageId)\<rparr>, calls)
      | (Rejected msg, calls) \<Rightarrow>
          (Inl (McpError InternalError (js ''Failed to send email: '' @ msg)),
           s\<lparr>lastSendResult := Some (SendError (nowAtRecord w) msg)\<rparr>, calls))"

definition sendEmailTool ::
  "platform \<Rightarrow> config \<Rightarrow> world \<Rightarrow> toolArguments \<Rightarrow> serverState \<Rightarrow> callResult" where
  "sendEmailTool pf cfg w args s =
     (if args = NoArguments then (Inl (McpError InvalidParams (js ''Invalid arguments'')), s, [])
      else
        (case parseSendEmailArgs pf args of
           Inl e \<Rightarrow> (Inl e, s, [])
         | Inr parsedArgs \<Rightarrow>
             (case normalizeEmailArgs parsedArgs of
                Inl e \<Rightarrow> (Inl e, s, [])
              | Inr normalized \<Rightarrow>
                  (case enforceAllowList pf cfg (n_to normalized @ n_cc normalized @ n_bcc normalized) of
                     Inl e \<Rightarrow> (Inl e, s, [])
                   | Inr u \<Rightarrow>
                       (case checkRateLimit pf cfg (nowAtLimit w) (limiter s) of
                          (Inl e, st) \<Rightarrow> (Inl e, s\<lparr>limiter := st\<rparr>, [])
                        | (Inr u', st) \<Rightarrow> transportStep w normalized (s\<lparr>limiter := st\<rparr>))))))"

definition callTool ::
  "platform \<Rightarrow> config \<Rightarrow> world \<Rightarrow> jsstring \<Rightarrow> toolArguments \<Rightarrow> serverState \<Rightarrow> callResult" where
  "callTool pf cfg w name args s =
     (if name = SEND_TOOL_NAME then sendEmailTool pf cfg w args s
      else if name = HEALTH_TOOL_NAME then (Inr (buildHealthReport pf cfg w s), s, [])
      else (Inl (McpError MethodNotFound (js ''Unknown tool: '' @ name)), s, []))"

text \<open>
  A sequence of calls, one after the other, each with its own world: the final state and
  all calls made to the transporter.
\<close>

record toolCall =
  callWorld :: world
  callName :: jsstring
  callArguments :: toolArguments

fun runCalls ::
  "platform \<Rightarrow> config \<Rightarrow> toolCall list \<Rightarrow> serverState \<Rightarrow> serverState \<times> MailOptions list" where
  "runCalls pf cfg [] s = (s, [])"
| "runCalls pf cfg (c # cs) s =
     (case callTool pf cfg (callWorld c) (callName c) (callArguments c) s of
        (r, s', sent) \<Rightarrow>
          (case runCalls pf cfg cs s' of (s'', sent') \<Rightarrow> (s'', sent @ sent')))"

section \<open>Example inputs\<close>

text \<open>
  Concrete states, worlds, configurations and arguments for running the model: a fresh
  server, a transporter that accepts every message and one that rejects every message, a
  configuration without an allow list, one with the allow list \<open>{"a@x.com"}\<close> and a limit
  of 2, one with a given limit and no allow list, and the arguments of a short message.
\<close>

definition state0 :: serverState where
  "state0 = \<lparr> limiter = \<lparr> windowStart = 0, count = 0 \<rparr>, lastSendResult = None \<rparr>"

definition worldOk :: world where
  "worldOk = \<lparr> nowAtLimit = 1000, sendMail = (\<lambda>opts. Resolved (Some (js ''id-1''))),
               nowAtRecord = 1200, verify = None, fromEmail = js ''me@proton.me'' \<rparr>"

definition worldDown :: world where
  "worldDown = \<lparr> nowAtLimit = 2000, sendMail = (\<lambda>opts. Rejected (js ''Connection timeout'')),
                 nowAtRecord = 2500, verify = Some (js ''Connection timeout''),
                 fromEmail = js ''me@proton.me'' \<rparr>"

definition cfgOpen :: config where
  "cfgOpen = \<lparr> RATE_LIMIT_PER_MINUTE = Finite 10, ALLOW_LIST = [] \<rparr>"

definition cfgStrict :: config where
  "cfgStrict = \<lparr> RATE_LIMIT_PER_MINUTE = Finite 2, ALLOW_LIST = [js ''a@x.com''] \<rparr>"

definition mail :: "jsstring \<Rightarrow> jsstring \<Rightarrow> jsvalue \<Rightarrow> rawArgs" where
  "mail t s c = \<lparr> raw_to = JString t, raw_subject = JString s, raw_body = JString (js ''hello''),
                  raw_isHtml = JUndefined, raw_cc = c, raw_bcc = JUndefined \<rparr>"

definition cfgOff :: "jsnumber \<Rightarrow> config" where
  "cfgOff l = \<lparr> RATE_LIMIT_PER_MINUTE = l, ALLOW_LIST = [] \<rparr>"

definition healthCall :: "world \<Rightarrow> toolCall" where
  "healthCall w = \<lparr> callWorld = w, callName = HEALTH_TOOL_NAME, callArguments = NoArguments \<rparr>"

definition sendCall :: "world \<Rightarrow> rawArgs \<Rightarrow> toolCall" where
  "sendCall w a = \<lparr> callWorld = w, callName = SEND_TOOL_NAME, callArguments = PlainObject a \<rparr>"

definition state1 :: serverState where
  "state1 = \<lparr> limiter = \<lparr> windowStart = 0, count = 1 \<rparr>,
              lastSendResult = Some (SendSuccess 1200 (Some (js ''id-1''))) \<rparr>"

definition state2 :: serverState where
  "state2 = \<lparr> limiter = \<lparr> windowStart = 0, count = 2 \<rparr>,
              lastSendResult = Some (SendError 2500 (js ''Connection timeout'')) \<rparr>"

definition state3 :: serverState where
  "state3 = \<lparr> limiter = \<lparr> windowStart = 0, count = 2 \<rparr>,
              lastSendResult = Some (SendSuccess 1200 (Some (js ''id-1''))) \<rparr>"

definition options1 :: MailOptions where
  "options1 = \<lparr> o_from = js ''me@proton.me'', o_to = js ''a@x.com'', o_cc = None, o_bcc = None,
                o_subject = js ''Hi'', o_text = Some (js ''hello''), o_html = None \<rparr>"

section \<open>Auxiliary notions\<close>

text \<open>
  Two restatements of parts of the handler, used to state facts about it: the options
  that \<open>EmailService.sendEmail\<close> passes to the transporter for given normalized arguments,
  and the stages of the \<open>send_email\<close> case before the \<open>try\<close> block.  The lemmas
  \<open>transportStep_eq\<close> and \<open>sendEmailTool_admission\<close> relate them to the handler.
\<close>

definition theMailOptions :: "world \<Rightarrow> NormalizedEmailArgs \<Rightarrow> MailOptions" where
  "theMailOptions w n =
     \<lparr> o_from = fromEmail w, o_to = join (js '', '') (n_to n),
       o_cc = formatRecipientField (n_cc n), o_bcc = formatRecipientField (n_bcc n),
       o_subject = n_subject n,
       o_text = (if \<not> n_isHtml n then Some (n_body n) else None),
       o_html = (if n_isHtml n then Some (n_body n) else None) \<rparr>"

definition admission ::
  "platform \<Rightarrow> config \<Rightarrow> world \<Rightarrow> toolArguments \<Rightarrow> serverState \<Rightarrow>
     (McpError \<times> serverState) + (NormalizedEmailArgs \<times> serverState)" where
  "admission pf cfg w args s =
     (if args = NoArguments then Inl (McpError InvalidParams (js ''Invalid arguments''), s)
      else
        (case parseSendEmailArgs pf args of
           Inl e \<Rightarrow> Inl (e, s)
         | Inr parsedArgs \<Rightarrow>
             (case normalizeEmailArgs parsedArgs of
                Inl e \<Rightarrow> Inl (e, s)
              | Inr normalized \<Rightarrow>
                  (case enforceAllowList pf cfg (n_to normalized @ n_cc normalized @ n_bcc normalized) of
                     Inl e \<Rightarrow> Inl (e, s)
                   | Inr u \<Rightarrow>
                       (case checkRateLimit pf cfg (nowAtLimit w) (limiter s) of
                          (Inl e, st) \<Rightarrow> Inl (e, s\<lparr>limiter := st\<rparr>)
                        | (Inr u', st) \<Rightarrow> Inr (normalized, s\<lparr>limiter := st\<rparr>))))))"

section \<open>Facts about strings\<close>

text \<open>
  \<open>split_on\<close> is the inverse of joining with the separator: the pieces of a string are
  the one non-empty list of separator-free strings whose join is the string.
\<close>

lemma join_Cons_nonempty: "ys \<noteq> [] \<Longrightarrow> join sep (x # ys) = x @ sep @ join sep ys"
  by (cases ys) simp_all

lemma split_scan_nonempty: "split_scan sep cur s \<noteq> []"
  by (induction s arbitrary: cur) simp_all

lemma join_split_scan: "join [sep] (split_scan sep cur s) = cur @ s"
  by (induction s arbitrary: cur) (simp_all add: join_Cons_nonempty split_scan_nonempty)

lemma split_scan_sep_free:
  "sep \<notin> set cur \<Longrightarrow> p \<in> set (split_scan sep cur s) \<Longrightarrow> sep \<notin> set p"
proof (induction s arbitrary: cur)
  case Nil
  then show ?case by simp
next
  case (Cons c cs)
  show ?case
  proof (cases "c = sep")
    case True
    with Cons.prems have "p = cur \<or> p \<in> set (split_scan sep [] cs)" by simp
    then show ?thesis
    proof
      assume "p = cur"
      with Cons.prems show ?thesis by simp
    next
      assume "p \<in> set (split_scan sep [] cs)"
      then show ?thesis using Cons.IH [of "[]"] by simp
    qed
  next
    case False
    with Cons.prems have "p \<in> set (split_scan sep (cur @ [c]) cs)" by simp
    moreover from False Cons.prems have "sep \<notin> set (cur @ [c])" by auto
    ultimately show ?thesis using Cons.IH by blast
  qed
qed

lemma split_scan_piece: "sep \<notin> set p \<Longrightarrow> split_scan sep cur p = [cur @ p]"
  by (induction p arbitrary: cur) auto

lemma split_scan_append:
  "sep \<notin> set p \<Longrightarrow> split_scan sep cur (p @ sep # rest) = (cur @ p) # split_scan sep [] rest"
  by (induction p arbitrary: cur) auto

lemma split_on_join:
  "ps \<noteq> [] \<Longrightarrow> (\<And>p. p \<in> set ps \<Longrightarrow> sep \<notin> set p) \<Longrightarrow> split_on sep (join [sep] ps) = ps"
proof (induction ps)
  case Nil
  then show ?case by simp
next
  case (Cons p ps)
  show ?case
  proof (cases ps)
    case Nil
    with Cons.prems show ?thesis by (simp add: split_on_def split_scan_piece)
  next
    case (Cons q qs)
    with Cons.IH Cons.prems have "split_on sep (join [sep] ps) = ps" by simp
    with Cons Cons.prems show ?thesis
      by (simp add: split_on_def split_scan_append)
  qed
qed

lemma trim_decomposition:
  "s = takeWhile isWhiteSpace s @ trim s @ rev (takeWhile isWhiteSpace (rev (dropWhile isWhiteSpace s)))"
proof -
  let ?b = "dropWhile isWhiteSpace s"
  have "rev (takeWhile isWhiteSpace (rev ?b) @ dropWhile isWhiteSpace (rev ?b)) = ?b"
    by (simp only: takeWhile_dropWhile_id rev_rev_ident)
  then have "?b = trim s @ rev (takeWhile isWhiteSpace (rev ?b))"
    by (simp only: trim_def rev_append)
  moreover have "s = takeWhile isWhiteSpace s @ ?b" by simp
  ultimately show ?thesis by metis
qed

lemma trim_last: "trim s \<noteq> [] \<Longrightarrow> \<not> isWhiteSpace (last (trim s))"
  by (simp add: trim_def last_rev hd_dropWhile)

lemma trim_hd: "trim s \<noteq> [] \<Longrightarrow> \<not> isWhiteSpace (hd (trim s))"
proof -
  assume ne: "trim s \<noteq> []"
  let ?b = "dropWhile isWhiteSpace s"
  have b: "?b = trim s @ rev (takeWhile isWhiteSpace (rev ?b))"
    using trim_decomposition [of s] by (metis append_eq_append_conv same_append_eq takeWhile_dropWhile_id)
  with ne have "?b \<noteq> []" by (metis append_is_Nil_conv)
  then have "\<not> isWhiteSpace (hd ?b)" by (rule hd_dropWhile)
  moreover from b ne have "hd ?b = hd (trim s)" by (metis hd_append2)
  ultimately show ?thesis by simp
qed

section \<open>Facts about the pipeline\<close>

lemma split_scan_subset:
  "p \<in> set (split_scan sep cur s) \<Longrightarrow> set p \<subseteq> set cur \<union> set s"
proof (induction s arbitrary: cur)
  case Nil
  then show ?case by simp
next
  case (Cons c cs)
  show ?case
  proof (cases "c = sep")
    case True
    with Cons.prems have "p = cur \<or> p \<in> set (split_scan sep [] cs)" by simp
    then show ?thesis using Cons.IH [of "[]"] by auto
  next
    case False
    with Cons.prems have "p \<in> set (split_scan sep (cur @ [c]) cs)" by simp
    then have "set p \<subseteq> set (cur @ [c]) \<union> set cs" by (rule Cons.IH)
    then show ?thesis by auto
  qed
qed

lemma split_on_piece_chars:
  "p \<in> set (split_on sep s) \<Longrightarrow> set p \<subseteq> set s \<and> sep \<notin> set p"
  unfolding split_on_def using split_scan_subset [of p sep "[]" s] split_scan_sep_free [of sep "[]" p s]
  by simp

lemma trim_all_whitespace:
  assumes "\<And>c. c \<in> set p \<Longrightarrow> isWhiteSpace c"
  shows "trim p = []"
proof -
  from assms have h: "dropWhile isWhiteSpace p = []" by simp
  show ?thesis unfolding trim_def h by simp
qed

lemma parse_error_code: "parseSendEmailArgs pf args = Inl e \<Longrightarrow> code e = InvalidParams"
  by (auto simp: parseSendEmailArgs_def split: sum.splits)

lemma zodString_Inr: "zodString pf key m n v = Inr x \<Longrightarrow> v = JString x \<and> 1 \<le> length x \<and> length x \<le> n"
  by (cases x) (auto simp: zodString_def split: jsvalue.splits if_splits)

lemma zodOptionalString_Inr:
  "zodOptionalString pf key v = Inr x \<Longrightarrow> (x = None \<and> v = JUndefined) \<or> (\<exists>y. x = Some y \<and> v = JString y)"
  by (auto simp: zodOptionalString_def split: jsvalue.splits)

lemma parse_ok_fields:
  assumes "parseSendEmailArgs pf args = Inr p"
  shows "\<exists>a. args = PlainObject a \<and> raw_to a = JString (p_to p) \<and> raw_subject a = JString (p_subject p) \<and>
          raw_body a = JString (p_body p) \<and>
          (case p_cc p of None \<Rightarrow> raw_cc a = JUndefined | Some c \<Rightarrow> raw_cc a = JString c) \<and>
          (case p_bcc p of None \<Rightarrow> raw_bcc a = JUndefined | Some c \<Rightarrow> raw_bcc a = JString c)"
proof -
  from assms have sp: "sendEmailSchema_parse pf args = Inr p"
    by (auto simp: parseSendEmailArgs_def split: sum.splits)
  then obtain a where a: "args = PlainObject a"
    by (cases args) (auto simp: sendEmailSchema_parse_def)
  from sp a obtain t s b h c bc where
    t: "zodString pf (js ''to'') ([apostrophe] @ js ''to'' @ [apostrophe] @ js '' is required'') 2048 (raw_to a) = Inr t" and
    s: "zodString pf (js ''subject'') ([apostrophe] @ js ''subject'' @ [apostrophe] @ js '' is required'') 512 (raw_subject a) = Inr s" and
    b: "zodString pf (js ''body'') ([apostrophe] @ js ''body'' @ [apostrophe] @ js '' is required'') 20000 (raw_body a) = Inr b" and
    c: "zodOptionalString pf (js ''cc'') (raw_cc a) = Inr c" and
    bc: "zodOptionalString pf (js ''bcc'') (raw_bcc a) = Inr bc" and
    p: "p = \<lparr> p_to = t, p_subject = s, p_body = b, p_isHtml = h, p_cc = c, p_bcc = bc \<rparr>"
    by (auto simp: sendEmailSchema_parse_def Let_def split: sum.splits)
  from zodString_Inr [OF t] zodString_Inr [OF s] zodString_Inr [OF b]
    zodOptionalString_Inr [OF c] zodOptionalString_Inr [OF bc] a p
  show ?thesis by (auto split: option.splits)
qed

lemma normalizeRecipientList_error_code:
  "normalizeRecipientList v f = Inl e \<Longrightarrow> code e = InvalidParams"
  by (auto simp: normalizeRecipientList_def split: option.splits if_splits)

lemma normalizeRecipientList_Inr_clean:
  "normalizeRecipientList (Some v) f = Inr xs \<Longrightarrow> \<not> HEADER_INJECTION_PATTERN_test v"
  by (auto simp: normalizeRecipientList_def HEADER_INJECTION_PATTERN_test_def split: if_splits)

lemma normalize_error_code: "normalizeEmailArgs p = Inl e \<Longrightarrow> code e = InvalidParams"
  by (auto simp: normalizeEmailArgs_def sanitizeHeaderField_def
      dest: normalizeRecipientList_error_code split: sum.splits if_splits)

lemma normalize_ok_clean:
  assumes "normalizeEmailArgs p = Inr n"
  shows "\<not> HEADER_INJECTION_PATTERN_test (p_to p) \<and> \<not> HEADER_INJECTION_PATTERN_test (p_subject p) \<and>
         (case p_cc p of None \<Rightarrow> True | Some c \<Rightarrow> \<not> HEADER_INJECTION_PATTERN_test c) \<and>
         (case p_bcc p of None \<Rightarrow> True | Some c \<Rightarrow> \<not> HEADER_INJECTION_PATTERN_test c) \<and>
         normalizeRecipientList (Some (p_to p)) (js ''to'') = Inr (n_to n) \<and> n_to n \<noteq> []"
  using assms
  by (auto simp: normalizeEmailArgs_def sanitizeHeaderField_def
      dest: normalizeRecipientList_Inr_clean split: sum.splits if_splits option.splits)

lemma sendEmailTool_early:
  "parseSendEmailArgs pf args = Inl e \<Longrightarrow>
     \<exists>msg. sendEmailTool pf cfg w args s = (Inl (McpError InvalidParams msg), s, [])"
  "parseSendEmailArgs pf args = Inr p \<Longrightarrow> normalizeEmailArgs p = Inl e \<Longrightarrow>
     \<exists>msg. sendEmailTool pf cfg w args s = (Inl (McpError InvalidParams msg), s, [])"
proof -
  { assume a: "parseSendEmailArgs pf args = Inl e"
    then have "code e = InvalidParams" by (rule parse_error_code)
    then have "e = McpError InvalidParams (message e)" by (cases e) simp
    with a show "\<exists>msg. sendEmailTool pf cfg w args s = (Inl (McpError InvalidParams msg), s, [])"
      by (cases "args = NoArguments") (auto simp: sendEmailTool_def) }
  { assume a: "parseSendEmailArgs pf args = Inr p" and b: "normalizeEmailArgs p = Inl e"
    from b have "code e = InvalidParams" by (rule normalize_error_code)
    then have "e = McpError InvalidParams (message e)" by (cases e) simp
    with a b show "\<exists>msg. sendEmailTool pf cfg w args s = (Inl (McpError InvalidParams msg), s, [])"
      by (cases "args = NoArguments") (auto simp: sendEmailTool_def) }
qed

lemma callTool_send: "callTool pf cfg w SEND_TOOL_NAME args s = sendEmailTool pf cfg w args s"
  by (simp add: callTool_def)

lemma SEND_neq_HEALTH: "SEND_TOOL_NAME \<noteq> HEALTH_TOOL_NAME"
  by (simp add: SEND_TOOL_NAME_def HEALTH_TOOL_NAME_def js_def)

lemma callTool_health:
  "callTool pf cfg w HEALTH_TOOL_NAME args s = (Inr (buildHealthReport pf cfg w s), s, [])"
  using SEND_neq_HEALTH by (simp add: callTool_def)

lemma set_trim_subset: "set (trim p) \<subseteq> set p"
proof -
  have "set (trim p) \<subseteq> set (dropWhile isWhiteSpace p)"
    unfolding trim_def using set_dropWhileD [of _ isWhiteSpace "rev (dropWhile isWhiteSpace p)"]
    by auto
  also have "\<dots> \<subseteq> set p" using set_dropWhileD [of _ isWhiteSpace p] by auto
  finally show ?thesis .
qed

text \<open>
  Claim C1.  A \<open>send_email\<close> call in which the subject, \<open>to\<close>, \<open>cc\<close> or \<open>bcc\<close> is a
  string containing CR or LF fails with an \<open>InvalidParams\<close> error, the state is as before
  and the transporter is not called.  A subject without CR and LF is sanitized to itself
  without its leading and trailing white space: what is cut off at both ends is white space
  only, and the result neither starts nor ends with white space.
\<close>

theorem header_injection_rejected:
  "(v \<in> {raw_subject a, raw_to a, raw_cc a, raw_bcc a} \<and> v = JString x \<and> (CR \<in> set x \<or> LF \<in> set x) \<longrightarrow>
      (\<exists>msg. callTool pf cfg w SEND_TOOL_NAME (PlainObject a) s =
                (Inl (McpError InvalidParams msg), s, []))) \<and>
   (CR \<notin> set subject \<and> LF \<notin> set subject \<longrightarrow>
      (\<exists>pre r post. sanitizeHeaderField subject fieldName = Inr r \<and> subject = pre @ r @ post \<and>
         list_all isWhiteSpace pre \<and> list_all isWhiteSpace post \<and>
         (r = [] \<or> (\<not> isWhiteSpace (hd r) \<and> \<not> isWhiteSpace (last r)))))"
proof (intro conjI impI)
  assume h: "v \<in> {raw_subject a, raw_to a, raw_cc a, raw_bcc a} \<and> v = JString x \<and>
             (CR \<in> set x \<or> LF \<in> set x)"
  then have x: "HEADER_INJECTION_PATTERN_test x" by (simp add: HEADER_INJECTION_PATTERN_test_def)
  show "\<exists>msg. callTool pf cfg w SEND_TOOL_NAME (PlainObject a) s =
                (Inl (McpError InvalidParams msg), s, [])"
  proof (cases "parseSendEmailArgs pf (PlainObject a)")
    case (Inl e)
    then show ?thesis unfolding callTool_send by (rule sendEmailTool_early(1))
  next
    case (Inr p)
    show ?thesis
    proof (cases "normalizeEmailArgs p")
      case (Inl e)
      with Inr show ?thesis unfolding callTool_send by (rule sendEmailTool_early(2))
    next
      case (Inr n)
      from parse_ok_fields [OF \<open>parseSendEmailArgs pf (PlainObject a) = Inr p\<close>]
      have f: "raw_to a = JString (p_to p)" "raw_subject a = JString (p_subject p)"
        "case p_cc p of None \<Rightarrow> raw_cc a = JUndefined | Some c \<Rightarrow> raw_cc a = JString c"
        "case p_bcc p of None \<Rightarrow> raw_bcc a = JUndefined | Some c \<Rightarrow> raw_bcc a = JString c"
        by auto
      from normalize_ok_clean [OF Inr] f h x have False
        by (auto split: option.splits)
      then show ?thesis ..
    qed
  qed
next
  assume h: "CR \<notin> set subject \<and> LF \<notin> set subject"
  let ?pre = "takeWhile isWhiteSpace subject"
  let ?post = "rev (takeWhile isWhiteSpace (rev (dropWhile isWhiteSpace subject)))"
  have 1: "sanitizeHeaderField subject fieldName = Inr (trim subject)"
    using h by (simp add: sanitizeHeaderField_def HEADER_INJECTION_PATTERN_test_def)
  have 2: "subject = ?pre @ trim subject @ ?post" by (rule trim_decomposition)
  have 3: "list_all isWhiteSpace ?pre"
    by (simp add: list_all_iff) (meson set_takeWhileD)
  have 4: "list_all isWhiteSpace ?post"
    by (simp add: list_all_iff) (meson set_takeWhileD)
  have 5: "trim subject = [] \<or> (\<not> isWhiteSpace (hd (trim subject)) \<and> \<not> isWhiteSpace (last (trim subject)))"
    using trim_hd [of subject] trim_last [of subject] by blast
  from 1 2 3 4 5 show "\<exists>pre r post. sanitizeHeaderField subject fieldName = Inr r \<and> subject = pre @ r @ post \<and>
         list_all isWhiteSpace pre \<and> list_all isWhiteSpace post \<and>
         (r = [] \<or> (\<not> isWhiteSpace (hd r) \<and> \<not> isWhiteSpace (last r)))"
    by blast
qed

theorem header_injection_rejected_witness:
  "raw_subject (mail (js ''a@x.com'') (js ''Hi'' @ [CR, LF] @ js ''Bcc: evil@x.com'') JUndefined) =
     JString (js ''Hi'' @ [CR, LF] @ js ''Bcc: evil@x.com'') \<and>
   CR \<in> set (js ''Hi'' @ [CR, LF] @ js ''Bcc: evil@x.com'') \<and>
   (\<exists>msg. callTool examplePlatform cfgOpen worldOk SEND_TOOL_NAME
      (PlainObject (mail (js ''a@x.com'') (js ''Hi'' @ [CR, LF] @ js ''Bcc: evil@x.com'') JUndefined))
      state0 = (Inl (McpError InvalidParams msg), state0, [])) \<and>
   callTool examplePlatform cfgOpen worldOk SEND_TOOL_NAME
      (PlainObject (mail (js ''a@x.com'') (js ''Hi'' @ [CR, LF] @ js ''Bcc: evil@x.com'') JUndefined))
      state0 =
     (Inl (McpError InvalidParams (newlineMessage (js ''subject''))), state0, []) \<and>
   CR \<notin> set (js ''  Hello there '') \<and> LF \<notin> set (js ''  Hello there '') \<and>
   sanitizeHeaderField (js ''  Hello there '') (js ''subject'') = Inr (js ''Hello there'')"
proof -
  let ?subject = "js ''Hi'' @ [CR, LF] @ js ''Bcc: evil@x.com''"
  let ?a = "mail (js ''a@x.com'') ?subject JUndefined"
  have h1: "JString ?subject \<in> {raw_subject ?a, raw_to ?a, raw_cc ?a, raw_bcc ?a} \<and>
            JString ?subject = JString ?subject \<and> (CR \<in> set ?subject \<or> LF \<in> set ?subject)"
    by (simp add: mail_def)
  have c1: "\<exists>msg. callTool examplePlatform cfgOpen worldOk SEND_TOOL_NAME (PlainObject ?a) state0 =
              (Inl (McpError InvalidParams msg), state0, [])"
    using header_injection_rejected [THEN conjunct1, rule_format, OF h1] .
  have e1: "callTool examplePlatform cfgOpen worldOk SEND_TOOL_NAME (PlainObject ?a) state0 =
              (Inl (McpError InvalidParams (newlineMessage (js ''subject''))), state0, [])"
    by (simp add: callTool_def sendEmailTool_def parseSendEmailArgs_def sendEmailSchema_parse_def
        zodString_def zodOptionalString_def zodOptionalBoolean_def mail_def normalizeEmailArgs_def
        normalizeRecipientList_def sanitizeHeaderField_def HEADER_INJECTION_PATTERN_test_def
        split_on_def trim_def isWhiteSpace_def js_def CR_def LF_def comma_def
        SEND_TOOL_NAME_def)
  have h2: "CR \<notin> set (js ''  Hello there '') \<and> LF \<notin> set (js ''  Hello there '')"
    by (simp add: js_def CR_def LF_def)
  have c2: "\<exists>pre r post. sanitizeHeaderField (js ''  Hello there '') (js ''subject'') = Inr r \<and>
              js ''  Hello there '' = pre @ r @ post \<and> list_all isWhiteSpace pre \<and>
              list_all isWhiteSpace post \<and>
              (r = [] \<or> (\<not> isWhiteSpace (hd r) \<and> \<not> isWhiteSpace (last r)))"
    using header_injection_rejected [THEN conjunct2, rule_format, OF h2] .
  have e2: "sanitizeHeaderField (js ''  Hello there '') (js ''subject'') = Inr (js ''Hello there'')"
    by (simp add: sanitizeHeaderField_def HEADER_INJECTION_PATTERN_test_def trim_def
        isWhiteSpace_def js_def CR_def LF_def)
  from h1 c1 e1 h2 c2 e2 show ?thesis by (simp add: mail_def)
qed

section \<open>Recipient lists\<close>

lemma normalizeRecipientList_clean:
  "raw \<noteq> [] \<Longrightarrow> CR \<notin> set raw \<Longrightarrow> LF \<notin> set raw \<Longrightarrow>
     normalizeRecipientList (Some raw) f = Inr (filter (\<lambda>e. e \<noteq> []) (map trim (split_on comma raw)))"
  by (simp add: normalizeRecipientList_def HEADER_INJECTION_PATTERN_test_def)

text \<open>
  Claim C3.  \<open>normalizeRecipientList\<close> returns the empty list, without error, for an absent
  and for an empty input.  A non-empty input without CR and LF is the join, with commas, of
  a non-empty list of comma-free pieces; whichever such list one takes (there is only one),
  the result is the list of the trimmed pieces without the empty ones, in the order of the
  pieces and with repetitions kept.  Every entry of the result is non-empty, has no white
  space at either end and contains no comma.
\<close>

theorem normalizeRecipientList_spec:
  "normalizeRecipientList None fieldName = Inr [] \<and>
   normalizeRecipientList (Some []) fieldName = Inr [] \<and>
   (raw \<noteq> [] \<and> CR \<notin> set raw \<and> LF \<notin> set raw \<longrightarrow>
      (\<exists>pieces. pieces \<noteq> [] \<and> join [comma] pieces = raw \<and> (\<forall>p\<in>set pieces. comma \<notin> set p) \<and>
         normalizeRecipientList (Some raw) fieldName =
           Inr (filter (\<lambda>e. e \<noteq> []) (map trim pieces))) \<and>
      (\<forall>entries e. normalizeRecipientList (Some raw) fieldName = Inr entries \<and> e \<in> set entries \<longrightarrow>
         e \<noteq> [] \<and> \<not> isWhiteSpace (hd e) \<and> \<not> isWhiteSpace (last e) \<and> comma \<notin> set e)) \<and>
   (parts \<noteq> [] \<and> (\<forall>p\<in>set parts. comma \<notin> set p) \<and> join [comma] parts \<noteq> [] \<and>
    CR \<notin> set (join [comma] parts) \<and> LF \<notin> set (join [comma] parts) \<longrightarrow>
      normalizeRecipientList (Some (join [comma] parts)) fieldName =
        Inr (filter (\<lambda>e. e \<noteq> []) (map trim parts)))"
proof (intro conjI impI)
  show "normalizeRecipientList None fieldName = Inr []"
    by (simp add: normalizeRecipientList_def)
  show "normalizeRecipientList (Some []) fieldName = Inr []"
    by (simp add: normalizeRecipientList_def)
next
  assume h: "raw \<noteq> [] \<and> CR \<notin> set raw \<and> LF \<notin> set raw"
  then have n: "normalizeRecipientList (Some raw) fieldName =
      Inr (filter (\<lambda>e. e \<noteq> []) (map trim (split_on comma raw)))"
    by (simp add: normalizeRecipientList_clean)
  have "split_on comma raw \<noteq> []" by (simp add: split_on_def split_scan_nonempty)
  moreover have "join [comma] (split_on comma raw) = raw"
    by (simp add: split_on_def join_split_scan)
  moreover have "\<forall>p\<in>set (split_on comma raw). comma \<notin> set p"
    using split_on_piece_chars by blast
  ultimately show "\<exists>pieces. pieces \<noteq> [] \<and> join [comma] pieces = raw \<and>
      (\<forall>p\<in>set pieces. comma \<notin> set p) \<and>
      normalizeRecipientList (Some raw) fieldName = Inr (filter (\<lambda>e. e \<noteq> []) (map trim pieces))"
    using n by blast
  show "\<forall>entries e. normalizeRecipientList (Some raw) fieldName = Inr entries \<and> e \<in> set entries \<longrightarrow>
         e \<noteq> [] \<and> \<not> isWhiteSpace (hd e) \<and> \<not> isWhiteSpace (last e) \<and> comma \<notin> set e"
  proof (intro allI impI)
    fix entries e
    assume "normalizeRecipientList (Some raw) fieldName = Inr entries \<and> e \<in> set entries"
    with n have "e \<in> set (filter (\<lambda>e. e \<noteq> []) (map trim (split_on comma raw)))" by simp
    then obtain p where p: "p \<in> set (split_on comma raw)" and e: "e = trim p" and ne: "e \<noteq> []"
      by auto
    from p have "comma \<notin> set p" using split_on_piece_chars by blast
    with e have "comma \<notin> set e" using set_trim_subset [of p] by blast
    with e ne trim_hd [of p] trim_last [of p]
    show "e \<noteq> [] \<and> \<not> isWhiteSpace (hd e) \<and> \<not> isWhiteSpace (last e) \<and> comma \<notin> set e"
      by simp
  qed
next
  assume h: "parts \<noteq> [] \<and> (\<forall>p\<in>set parts. comma \<notin> set p) \<and> join [comma] parts \<noteq> [] \<and>
    CR \<notin> set (join [comma] parts) \<and> LF \<notin> set (join [comma] parts)"
  then have "split_on comma (join [comma] parts) = parts"
    using split_on_join [of parts comma] by blast
  with h show "normalizeRecipientList (Some (join [comma] parts)) fieldName =
        Inr (filter (\<lambda>e. e \<noteq> []) (map trim parts))"
    by (simp add: normalizeRecipientList_clean)
qed

theorem normalizeRecipientList_spec_witness:
  "normalizeRecipientList None (js ''cc'') = Inr [] \<and>
   normalizeRecipientList (Some []) (js ''cc'') = Inr [] \<and>
   [js ''a@x.com'', js '' a@x.com'', js '' b@x.com''] \<noteq> [] \<and>
   list_all (\<lambda>p. comma \<notin> set p) [js ''a@x.com'', js '' a@x.com'', js '' b@x.com''] \<and>
   join [comma] [js ''a@x.com'', js '' a@x.com'', js '' b@x.com''] = js ''a@x.com, a@x.com, b@x.com'' \<and>
   js ''a@x.com, a@x.com, b@x.com'' \<noteq> [] \<and>
   CR \<notin> set (js ''a@x.com, a@x.com, b@x.com'') \<and>
   LF \<notin> set (js ''a@x.com, a@x.com, b@x.com'') \<and>
   normalizeRecipientList (Some (js ''a@x.com, a@x.com, b@x.com'')) (js ''to'') =
     Inr [js ''a@x.com'', js ''a@x.com'', js ''b@x.com'']"
proof -
  let ?parts = "[js ''a@x.com'', js '' a@x.com'', js '' b@x.com'']"
  let ?raw = "js ''a@x.com, a@x.com, b@x.com''"
  note spec = normalizeRecipientList_spec [where fieldName = "js ''to''" and raw = ?raw and parts = ?parts]
  have j: "join [comma] ?parts = ?raw" by (simp add: js_def comma_def)
  have h3: "?raw \<noteq> [] \<and> CR \<notin> set ?raw \<and> LF \<notin> set ?raw"
    by (simp add: js_def CR_def LF_def)
  have h4: "?parts \<noteq> [] \<and> (\<forall>p\<in>set ?parts. comma \<notin> set p) \<and> join [comma] ?parts \<noteq> [] \<and>
            CR \<notin> set (join [comma] ?parts) \<and> LF \<notin> set (join [comma] ?parts)"
    unfolding j using h3 by (simp add: js_def comma_def)
  have c3: "\<forall>entries e. normalizeRecipientList (Some ?raw) (js ''to'') = Inr entries \<and> e \<in> set entries \<longrightarrow>
         e \<noteq> [] \<and> \<not> isWhiteSpace (hd e) \<and> \<not> isWhiteSpace (last e) \<and> comma \<notin> set e"
    using spec [THEN conjunct2, THEN conjunct2, THEN conjunct1, rule_format, OF h3] by blast
  have c4: "normalizeRecipientList (Some (join [comma] ?parts)) (js ''to'') =
              Inr (filter (\<lambda>e. e \<noteq> []) (map trim ?parts))"
    using spec [THEN conjunct2, THEN conjunct2, THEN conjunct2, rule_format, OF h4] .
  have t: "filter (\<lambda>e. e \<noteq> []) (map trim ?parts) = [js ''a@x.com'', js ''a@x.com'', js ''b@x.com'']"
    by (simp add: trim_def isWhiteSpace_def js_def)
  have e: "normalizeRecipientList None (js ''cc'') = Inr [] \<and>
           normalizeRecipientList (Some []) (js ''cc'') = Inr []"
    using normalizeRecipientList_spec [where fieldName = "js ''cc''"] by blast
  have p: "list_all (\<lambda>p. comma \<notin> set p) ?parts" using h4 by (simp add: list_all_iff)
  from c3 c4 [unfolded j t] e p j h3 show ?thesis by simp
qed

lemma normalizeRecipientList_blank:
  assumes "\<And>c. c \<in> set t \<Longrightarrow> isWhiteSpace c \<or> c = comma"
    and "normalizeRecipientList (Some t) f = Inr xs"
  shows "xs = []"
proof (cases "t = [] \<or> HEADER_INJECTION_PATTERN_test t")
  case True
  with assms(2) show ?thesis by (auto simp: normalizeRecipientList_def split: if_splits)
next
  case False
  with assms(2) have xs: "xs = filter (\<lambda>e. length e > 0) (map trim (split_on comma t))"
    by (simp add: normalizeRecipientList_def)
  have "trim p = []" if "p \<in> set (split_on comma t)" for p
  proof (rule trim_all_whitespace)
    fix c assume "c \<in> set p"
    with that split_on_piece_chars [of p comma t] have "c \<in> set t" "c \<noteq> comma" by auto
    with assms(1) show "isWhiteSpace c" by blast
  qed
  with xs show ?thesis by (simp add: filter_empty_conv)
qed

text \<open>
  Claim C5.  A \<open>send_email\<close> call whose \<open>to\<close> string normalizes to the empty list, or
  consists of white space and commas only (which covers the empty string, a blank string
  and a string of commas), fails with an \<open>InvalidParams\<close> error; the state is as before and
  the transporter is not called.
\<close>

theorem empty_to_rejected:
  assumes "raw_to a = JString t"
    and "normalizeRecipientList (Some t) (js ''to'') = Inr [] \<or> (\<forall>c\<in>set t. isWhiteSpace c \<or> c = comma)"
  shows "\<exists>msg. callTool pf cfg w SEND_TOOL_NAME (PlainObject a) s =
           (Inl (McpError InvalidParams msg), s, [])"
proof (cases "parseSendEmailArgs pf (PlainObject a)")
  case (Inl e)
  then show ?thesis unfolding callTool_send by (rule sendEmailTool_early(1))
next
  case (Inr p)
  from parse_ok_fields [OF Inr] assms(1) have t: "p_to p = t" by auto
  show ?thesis
  proof (cases "normalizeEmailArgs p")
    case (Inl e)
    with Inr show ?thesis unfolding callTool_send by (rule sendEmailTool_early(2))
  next
    case n: (Inr n)
    from normalize_ok_clean [OF n] t
    have r: "normalizeRecipientList (Some t) (js ''to'') = Inr (n_to n)" and ne: "n_to n \<noteq> []"
      by auto
    from assms(2) have False
    proof
      assume "normalizeRecipientList (Some t) (js ''to'') = Inr []"
      with r ne show False by simp
    next
      assume "\<forall>c\<in>set t. isWhiteSpace c \<or> c = comma"
      then have "n_to n = []" using normalizeRecipientList_blank [OF _ r] by blast
      with ne show False by simp
    qed
    then show ?thesis ..
  qed
qed

theorem empty_to_rejected_witness:
  "raw_to (mail (js '' , ,  '') (js ''Hi'') JUndefined) = JString (js '' , ,  '') \<and>
   normalizeRecipientList (Some (js '' , ,  '')) (js ''to'') = Inr [] \<and>
   list_all (\<lambda>c. isWhiteSpace c \<or> c = comma) (js '' , ,  '') \<and>
   (\<exists>msg. callTool examplePlatform cfgOpen worldOk SEND_TOOL_NAME
      (PlainObject (mail (js '' , ,  '') (js ''Hi'') JUndefined)) state0 =
      (Inl (McpError InvalidParams msg), state0, [])) \<and>
   callTool examplePlatform cfgOpen worldOk SEND_TOOL_NAME
      (PlainObject (mail (js '' , ,  '') (js ''Hi'') JUndefined)) state0 =
     (Inl (McpError InvalidParams (js ''At least one recipient is required'')), state0, []) \<and>
   raw_to (mail [] (js ''Hi'') JUndefined) = JString [] \<and>
   normalizeRecipientList (Some []) (js ''to'') = Inr [] \<and>
   callTool examplePlatform cfgOpen worldOk SEND_TOOL_NAME
      (PlainObject (mail [] (js ''Hi'') JUndefined)) state0 =
     (Inl (McpError InvalidParams (js ''to: '' @ [apostrophe] @ js ''to'' @ [apostrophe] @ js '' is required'')),
      state0, [])"
proof -
  let ?t = "js '' , ,  ''"
  have h1: "raw_to (mail ?t (js ''Hi'') JUndefined) = JString ?t" by (simp add: mail_def)
  have n: "normalizeRecipientList (Some ?t) (js ''to'') = Inr []"
    by (simp add: normalizeRecipientList_def HEADER_INJECTION_PATTERN_test_def split_on_def
        trim_def isWhiteSpace_def js_def CR_def LF_def comma_def)
  have b: "list_all (\<lambda>c. isWhiteSpace c \<or> c = comma) ?t"
    by (simp add: isWhiteSpace_def js_def comma_def)
  have h2: "normalizeRecipientList (Some ?t) (js ''to'') = Inr [] \<or>
            (\<forall>c\<in>set ?t. isWhiteSpace c \<or> c = comma)"
    using n by blast
  have c1: "\<exists>msg. callTool examplePlatform cfgOpen worldOk SEND_TOOL_NAME
      (PlainObject (mail ?t (js ''Hi'') JUndefined)) state0 =
      (Inl (McpError InvalidParams msg), state0, [])"
    using empty_to_rejected [OF h1 h2] .
  have e1: "callTool examplePlatform cfgOpen worldOk SEND_TOOL_NAME
      (PlainObject (mail ?t (js ''Hi'') JUndefined)) state0 =
     (Inl (McpError InvalidParams (js ''At least one recipient is required'')), state0, [])"
    by (simp add: callTool_def sendEmailTool_def parseSendEmailArgs_def sendEmailSchema_parse_def
        zodString_def zodOptionalString_def zodOptionalBoolean_def mail_def normalizeEmailArgs_def
        normalizeRecipientList_def HEADER_INJECTION_PATTERN_test_def
        split_on_def trim_def isWhiteSpace_def js_def CR_def LF_def comma_def)
  have h3: "raw_to (mail [] (js ''Hi'') JUndefined) = JString []" by (simp add: mail_def)
  have n3: "normalizeRecipientList (Some []) (js ''to'') = Inr []"
    by (simp add: normalizeRecipientList_def)
  have e3: "callTool examplePlatform cfgOpen worldOk SEND_TOOL_NAME
      (PlainObject (mail [] (js ''Hi'') JUndefined)) state0 =
     (Inl (McpError InvalidParams (js ''to: '' @ [apostrophe] @ js ''to'' @ [apostrophe] @ js '' is required'')),
      state0, [])"
    by (simp add: callTool_def sendEmailTool_def parseSendEmailArgs_def sendEmailSchema_parse_def
        zodString_def zodOptionalString_def zodOptionalBoolean_def mail_def issueText_def js_def)
  from h1 n b c1 e1 h3 n3 e3 show ?thesis by blast
qed

section \<open>Allow list enforcement\<close>

lemma allowListEnabled_iff: "allowListEnabled cfg \<longleftrightarrow> ALLOW_LIST cfg \<noteq> []"
  by (simp add: allowListEnabled_def Set_size_def)

text \<open>
  Claim C4.  With an empty allow list \<open>enforceAllowList\<close> accepts every list of recipients.
  With a non-empty one it fails exactly when the lower-cased form of some recipient is not
  in the list, and the error then is an \<open>InvalidRequest\<close> whose message ends with the
  disallowed recipients, as they were written and in their order, joined with \<open>", "\<close>.
  The handler applies it to the normalized \<open>to\<close>, \<open>cc\<close> and \<open>bcc\<close> lists, one after the
  other, and when it fails the call fails with that error, the state is as before and the
  transporter is not called.
\<close>

theorem enforceAllowList_spec:
  "(ALLOW_LIST cfg = [] \<longrightarrow> enforceAllowList pf cfg recipients = Inr ()) \<and>
   (ALLOW_LIST cfg \<noteq> [] \<longrightarrow>
      ((\<exists>e. enforceAllowList pf cfg recipients = Inl e) \<longleftrightarrow>
       (\<exists>r\<in>set recipients. toLowerCase pf r \<notin> set (ALLOW_LIST cfg))) \<and>
      ((\<exists>r\<in>set recipients. toLowerCase pf r \<notin> set (ALLOW_LIST cfg)) \<longrightarrow>
         enforceAllowList pf cfg recipients =
           Inl (McpError InvalidRequest
                 (js ''Recipient(s) not permitted by allow list: '' @
                  join (js '', '') (filter (\<lambda>r. toLowerCase pf r \<notin> set (ALLOW_LIST cfg)) recipients))))) \<and>
   (args \<noteq> NoArguments \<and> parseSendEmailArgs pf args = Inr parsed \<and>
    normalizeEmailArgs parsed = Inr n \<and>
    enforceAllowList pf cfg (n_to n @ n_cc n @ n_bcc n) = Inl err \<longrightarrow>
      callTool pf cfg w SEND_TOOL_NAME args s = (Inl err, s, []))"
proof (intro conjI impI)
  assume "ALLOW_LIST cfg = []"
  then show "enforceAllowList pf cfg recipients = Inr ()"
    by (simp add: enforceAllowList_def allowListEnabled_iff)
next
  assume a: "ALLOW_LIST cfg \<noteq> []"
  let ?bad = "filter (\<lambda>r. toLowerCase pf r \<notin> set (ALLOW_LIST cfg)) recipients"
  have ne: "?bad \<noteq> [] \<longleftrightarrow> (\<exists>r\<in>set recipients. toLowerCase pf r \<notin> set (ALLOW_LIST cfg))"
    by (simp add: filter_empty_conv)
  have d: "enforceAllowList pf cfg recipients =
      (if ?bad \<noteq> [] then Inl (McpError InvalidRequest
         (js ''Recipient(s) not permitted by allow list: '' @ join (js '', '') ?bad)) else Inr ())"
    using a by (simp add: enforceAllowList_def allowListEnabled_iff Set_has_def Let_def)
  show "(\<exists>e. enforceAllowList pf cfg recipients = Inl e) \<longleftrightarrow>
       (\<exists>r\<in>set recipients. toLowerCase pf r \<notin> set (ALLOW_LIST cfg))"
    unfolding d ne [symmetric] by simp
  assume "\<exists>r\<in>set recipients. toLowerCase pf r \<notin> set (ALLOW_LIST cfg)"
  with ne have "?bad \<noteq> []" by blast
  with d show "enforceAllowList pf cfg recipients =
           Inl (McpError InvalidRequest
                 (js ''Recipient(s) not permitted by allow list: '' @ join (js '', '') ?bad))"
    by simp
next
  assume "args \<noteq> NoArguments \<and> parseSendEmailArgs pf args = Inr parsed \<and>
    normalizeEmailArgs parsed = Inr n \<and>
    enforceAllowList pf cfg (n_to n @ n_cc n @ n_bcc n) = Inl err"
  then show "callTool pf cfg w SEND_TOOL_NAME args s = (Inl err, s, [])"
    by (simp add: callTool_send sendEmailTool_def)
qed


theorem enforceAllowList_spec_witness:
  "ALLOW_LIST cfgOpen = [] \<and>
   enforceAllowList examplePlatform cfgOpen [js ''Anyone@Y.org''] = Inr () \<and>
   ALLOW_LIST cfgStrict \<noteq> [] \<and>
   toLowerCase examplePlatform (js ''A@x.com'') \<in> set (ALLOW_LIST cfgStrict) \<and>
   toLowerCase examplePlatform (js ''B@X.com'') \<notin> set (ALLOW_LIST cfgStrict) \<and>
   toLowerCase examplePlatform (js ''c@x.com'') \<notin> set (ALLOW_LIST cfgStrict) \<and>
   enforceAllowList examplePlatform cfgStrict [js ''B@X.com'', js ''A@x.com'', js ''c@x.com''] =
     Inl (McpError InvalidRequest (js ''Recipient(s) not permitted by allow list: B@X.com, c@x.com'')) \<and>
   enforceAllowList examplePlatform cfgStrict [js ''A@x.com''] = Inr () \<and>
   PlainObject (mail (js ''a@x.com'') (js ''Hi'') (JString (js ''b@x.com''))) \<noteq> NoArguments \<and>
   parseSendEmailArgs examplePlatform (PlainObject (mail (js ''a@x.com'') (js ''Hi'') (JString (js ''b@x.com'')))) =
     Inr \<lparr> p_to = js ''a@x.com'', p_subject = js ''Hi'', p_body = js ''hello'', p_isHtml = None,
           p_cc = Some (js ''b@x.com''), p_bcc = None \<rparr> \<and>
   normalizeEmailArgs \<lparr> p_to = js ''a@x.com'', p_subject = js ''Hi'', p_body = js ''hello'',
       p_isHtml = None, p_cc = Some (js ''b@x.com''), p_bcc = None \<rparr> =
     Inr \<lparr> n_to = [js ''a@x.com''], n_subject = js ''Hi'', n_body = js ''hello'', n_isHtml = False,
           n_cc = [js ''b@x.com''], n_bcc = [] \<rparr> \<and>
   callTool examplePlatform cfgStrict worldOk SEND_TOOL_NAME
       (PlainObject (mail (js ''a@x.com'') (js ''Hi'') (JString (js ''b@x.com'')))) state0 =
     (Inl (McpError InvalidRequest (js ''Recipient(s) not permitted by allow list: b@x.com'')),
      state0, [])"
proof -
  let ?args = "PlainObject (mail (js ''a@x.com'') (js ''Hi'') (JString (js ''b@x.com'')))"
  let ?parsed = "\<lparr> p_to = js ''a@x.com'', p_subject = js ''Hi'', p_body = js ''hello'',
       p_isHtml = None, p_cc = Some (js ''b@x.com''), p_bcc = None \<rparr>"
  let ?n = "\<lparr> n_to = [js ''a@x.com''], n_subject = js ''Hi'', n_body = js ''hello'', n_isHtml = False,
           n_cc = [js ''b@x.com''], n_bcc = [] \<rparr>"
  let ?rs = "[js ''B@X.com'', js ''A@x.com'', js ''c@x.com'']"
  note low = examplePlatform_def asciiLower_def js_def cfgStrict_def
  have h1: "ALLOW_LIST cfgOpen = []" by (simp add: cfgOpen_def)
  have c1: "enforceAllowList examplePlatform cfgOpen [js ''Anyone@Y.org''] = Inr ()"
    using enforceAllowList_spec [THEN conjunct1, rule_format, OF h1] .
  have h2: "ALLOW_LIST cfgStrict \<noteq> []" by (simp add: cfgStrict_def)
  have m: "toLowerCase examplePlatform (js ''A@x.com'') \<in> set (ALLOW_LIST cfgStrict)"
    "toLowerCase examplePlatform (js ''B@X.com'') \<notin> set (ALLOW_LIST cfgStrict)"
    "toLowerCase examplePlatform (js ''c@x.com'') \<notin> set (ALLOW_LIST cfgStrict)"
    "toLowerCase examplePlatform (js ''a@x.com'') \<in> set (ALLOW_LIST cfgStrict)"
    "toLowerCase examplePlatform (js ''b@x.com'') \<notin> set (ALLOW_LIST cfgStrict)"
    by (simp_all add: low)
  have b2: "\<exists>r\<in>set ?rs. toLowerCase examplePlatform r \<notin> set (ALLOW_LIST cfgStrict)"
    using m(2) by simp
  have c2: "enforceAllowList examplePlatform cfgStrict ?rs =
     Inl (McpError InvalidRequest (js ''Recipient(s) not permitted by allow list: '' @
       join (js '', '') (filter (\<lambda>r. toLowerCase examplePlatform r \<notin> set (ALLOW_LIST cfgStrict)) ?rs)))"
    using enforceAllowList_spec [THEN conjunct2, THEN conjunct1, rule_format, OF h2, THEN conjunct2,
      rule_format, OF b2] .
  have f2: "filter (\<lambda>r. toLowerCase examplePlatform r \<notin> set (ALLOW_LIST cfgStrict)) ?rs =
      [js ''B@X.com'', js ''c@x.com'']"
    using m by simp
  have j2: "js ''Recipient(s) not permitted by allow list: '' @ join (js '', '') [js ''B@X.com'', js ''c@x.com'']
      = js ''Recipient(s) not permitted by allow list: B@X.com, c@x.com''"
    by (simp add: js_def)
  have c2': "\<not> (\<exists>e. enforceAllowList examplePlatform cfgStrict [js ''A@x.com''] = Inl e)"
    using enforceAllowList_spec [THEN conjunct2, THEN conjunct1, rule_format, OF h2, THEN conjunct1,
      of examplePlatform "[js ''A@x.com'']"] m(1) by simp
  then have c2'': "enforceAllowList examplePlatform cfgStrict [js ''A@x.com''] = Inr ()"
    by (cases "enforceAllowList examplePlatform cfgStrict [js ''A@x.com'']") auto
  have p: "parseSendEmailArgs examplePlatform ?args = Inr ?parsed"
    by (simp add: parseSendEmailArgs_def sendEmailSchema_parse_def zodString_def
        zodOptionalString_def zodOptionalBoolean_def mail_def js_def)
  have n: "normalizeEmailArgs ?parsed = Inr ?n"
    by (simp add: normalizeEmailArgs_def normalizeRecipientList_def sanitizeHeaderField_def
        HEADER_INJECTION_PATTERN_test_def split_on_def trim_def isWhiteSpace_def js_def
        CR_def LF_def comma_def)
  have b3: "\<exists>r\<in>set (n_to ?n @ n_cc ?n @ n_bcc ?n). toLowerCase examplePlatform r \<notin> set (ALLOW_LIST cfgStrict)"
    using m(5) by simp
  have f3: "filter (\<lambda>r. toLowerCase examplePlatform r \<notin> set (ALLOW_LIST cfgStrict))
              (n_to ?n @ n_cc ?n @ n_bcc ?n) = [js ''b@x.com'']"
    using m by simp
  have e3: "enforceAllowList examplePlatform cfgStrict (n_to ?n @ n_cc ?n @ n_bcc ?n) =
     Inl (McpError InvalidRequest (js ''Recipient(s) not permitted by allow list: b@x.com''))"
    using enforceAllowList_spec [THEN conjunct2, THEN conjunct1, rule_format, OF h2, THEN conjunct2,
      rule_format, OF b3]
    unfolding f3 by (simp add: js_def)
  have h3: "?args \<noteq> NoArguments \<and> parseSendEmailArgs examplePlatform ?args = Inr ?parsed \<and>
    normalizeEmailArgs ?parsed = Inr ?n \<and>
    enforceAllowList examplePlatform cfgStrict (n_to ?n @ n_cc ?n @ n_bcc ?n) =
      Inl (McpError InvalidRequest (js ''Recipient(s) not permitted by allow list: b@x.com''))"
    using p n e3 by simp
  have c3: "callTool examplePlatform cfgStrict worldOk SEND_TOOL_NAME ?args state0 =
     (Inl (McpError InvalidRequest (js ''Recipient(s) not permitted by allow list: b@x.com'')),
      state0, [])"
    using enforceAllowList_spec [THEN conjunct2, THEN conjunct2, rule_format, OF h3] .
  from h1 c1 h2 m(1,2,3) c2 [unfolded f2 j2] c2'' p n c3 show ?thesis by simp
qed

section \<open>The rate limiter\<close>

text \<open>
  Claim C2.  \<open>checkRateLimit\<close> with a finite limit \<open>l > 0\<close>: the state is first rolled
  over (count 0, window start \<open>now\<close>) when \<open>now - windowStart \<ge> 60000\<close>; then, if the count
  has reached \<open>l\<close>, the call fails with an \<open>InvalidRequest\<close> error whose message carries
  \<open>l\<close>, and otherwise the count grows by one and the call is admitted.  With a limit
  \<open>\<le> 0\<close>, \<open>NaN\<close> or an infinity every call is admitted and the state stays as it is.
  With limit 2 and a fresh window, two calls inside the window are admitted, a third one
  inside the window fails, and a call at or after the end of the window is admitted and
  leaves the count at 1.
\<close>

theorem checkRateLimit_spec:
  "(RATE_LIMIT_PER_MINUTE cfg = Finite l \<and> 0 < l \<and>
    st1 = (if now - windowStart st \<ge> 60000 then st\<lparr>windowStart := now, count := 0\<rparr> else st) \<longrightarrow>
      (count st1 \<ge> l \<longrightarrow>
         checkRateLimit pf cfg now st =
           (Inl (McpError InvalidRequest
                  (js ''Rate limit exceeded ('' @ numberToString pf l @ js '' emails per minute)'')),
            st1)) \<and>
      (count st1 < l \<longrightarrow>
         checkRateLimit pf cfg now st = (Inr (), st1\<lparr>count := count st1 + 1\<rparr>))) \<and>
   ((RATE_LIMIT_PER_MINUTE cfg = Finite l \<and> l \<le> 0) \<or> RATE_LIMIT_PER_MINUTE cfg = NaN \<or>
    RATE_LIMIT_PER_MINUTE cfg = PosInfinity \<or> RATE_LIMIT_PER_MINUTE cfg = NegInfinity \<longrightarrow>
      checkRateLimit pf cfg now st = (Inr (), st)) \<and>
   (RATE_LIMIT_PER_MINUTE cfg = Finite 2 \<and> count st = 0 \<and>
    t1 - windowStart st < 60000 \<and> t2 - windowStart st < 60000 \<and> t3 - windowStart st < 60000 \<and>
    t4 - windowStart st \<ge> 60000 \<longrightarrow>
      checkRateLimit pf cfg t1 st = (Inr (), st\<lparr>count := 1\<rparr>) \<and>
      checkRateLimit pf cfg t2 (st\<lparr>count := 1\<rparr>) = (Inr (), st\<lparr>count := 2\<rparr>) \<and>
      checkRateLimit pf cfg t3 (st\<lparr>count := 2\<rparr>) =
        (Inl (McpError InvalidRequest
               (js ''Rate limit exceeded ('' @ numberToString pf 2 @ js '' emails per minute)'')),
         st\<lparr>count := 2\<rparr>) \<and>
      checkRateLimit pf cfg t4 (st\<lparr>count := 2\<rparr>) = (Inr (), st\<lparr>windowStart := t4, count := 1\<rparr>))"
proof (intro conjI impI)
  assume "RATE_LIMIT_PER_MINUTE cfg = Finite l \<and> 0 < l \<and>
    st1 = (if now - windowStart st \<ge> 60000 then st\<lparr>windowStart := now, count := 0\<rparr> else st)"
    and "count st1 \<ge> l"
  then show "checkRateLimit pf cfg now st =
           (Inl (McpError InvalidRequest
                  (js ''Rate limit exceeded ('' @ numberToString pf l @ js '' emails per minute)'')),
            st1)"
    by (simp add: checkRateLimit_def rateLimitMessage_def Let_def)
next
  assume "RATE_LIMIT_PER_MINUTE cfg = Finite l \<and> 0 < l \<and>
    st1 = (if now - windowStart st \<ge> 60000 then st\<lparr>windowStart := now, count := 0\<rparr> else st)"
    and "count st1 < l"
  then show "checkRateLimit pf cfg now st = (Inr (), st1\<lparr>count := count st1 + 1\<rparr>)"
    by (simp add: checkRateLimit_def Let_def)
next
  assume "(RATE_LIMIT_PER_MINUTE cfg = Finite l \<and> l \<le> 0) \<or> RATE_LIMIT_PER_MINUTE cfg = NaN \<or>
    RATE_LIMIT_PER_MINUTE cfg = PosInfinity \<or> RATE_LIMIT_PER_MINUTE cfg = NegInfinity"
  then show "checkRateLimit pf cfg now st = (Inr (), st)"
    by (auto simp: checkRateLimit_def)
next
  assume h: "RATE_LIMIT_PER_MINUTE cfg = Finite 2 \<and> count st = 0 \<and>
    t1 - windowStart st < 60000 \<and> t2 - windowStart st < 60000 \<and> t3 - windowStart st < 60000 \<and>
    t4 - windowStart st \<ge> 60000"
  from h show "checkRateLimit pf cfg t1 st = (Inr (), st\<lparr>count := 1\<rparr>)"
    by (simp add: checkRateLimit_def Let_def)
  from h show "checkRateLimit pf cfg t2 (st\<lparr>count := 1\<rparr>) = (Inr (), st\<lparr>count := 2\<rparr>)"
    by (simp add: checkRateLimit_def Let_def)
  from h show "checkRateLimit pf cfg t3 (st\<lparr>count := 2\<rparr>) =
        (Inl (McpError InvalidRequest
               (js ''Rate limit exceeded ('' @ numberToString pf 2 @ js '' emails per minute)'')),
         st\<lparr>count := 2\<rparr>)"
    by (simp add: checkRateLimit_def rateLimitMessage_def Let_def)
  from h show "checkRateLimit pf cfg t4 (st\<lparr>count := 2\<rparr>) = (Inr (), st\<lparr>windowStart := t4, count := 1\<rparr>)"
    by (simp add: checkRateLimit_def Let_def)
qed

theorem checkRateLimit_spec_witness:
  "RATE_LIMIT_PER_MINUTE cfgStrict = Finite 2 \<and> (0::int) < 2 \<and>
   checkRateLimit examplePlatform cfgStrict 1000 \<lparr> windowStart = 0, count = 0 \<rparr> =
     (Inr (), \<lparr> windowStart = 0, count = 1 \<rparr>) \<and>
   checkRateLimit examplePlatform cfgStrict 2000 \<lparr> windowStart = 0, count = 1 \<rparr> =
     (Inr (), \<lparr> windowStart = 0, count = 2 \<rparr>) \<and>
   checkRateLimit examplePlatform cfgStrict 59999 \<lparr> windowStart = 0, count = 2 \<rparr> =
     (Inl (McpError InvalidRequest (js ''Rate limit exceeded (2 emails per minute)'')),
      \<lparr> windowStart = 0, count = 2 \<rparr>) \<and>
   checkRateLimit examplePlatform cfgStrict 60000 \<lparr> windowStart = 0, count = 2 \<rparr> =
     (Inr (), \<lparr> windowStart = 60000, count = 1 \<rparr>) \<and>
   RATE_LIMIT_PER_MINUTE (cfgOff (Finite 0)) = Finite 0 \<and>
   checkRateLimit examplePlatform (cfgOff (Finite 0)) 60000 \<lparr> windowStart = 0, count = 7 \<rparr> =
     (Inr (), \<lparr> windowStart = 0, count = 7 \<rparr>) \<and>
   RATE_LIMIT_PER_MINUTE (cfgOff NaN) = NaN \<and>
   checkRateLimit examplePlatform (cfgOff NaN) 60000 \<lparr> windowStart = 0, count = 7 \<rparr> =
     (Inr (), \<lparr> windowStart = 0, count = 7 \<rparr>)"
proof -
  let ?st = "\<lparr> windowStart = 0, count = 0 \<rparr> :: rateLimiterState"
  have l: "RATE_LIMIT_PER_MINUTE cfgStrict = Finite 2" by (simp add: cfgStrict_def)
  have two: "numberToString examplePlatform 2 = js ''2''"
    by (simp add: examplePlatform_def showInt_def decimal.simps js_def)
  have h3: "RATE_LIMIT_PER_MINUTE cfgStrict = Finite 2 \<and> count ?st = 0 \<and>
    1000 - windowStart ?st < 60000 \<and> 2000 - windowStart ?st < 60000 \<and>
    59999 - windowStart ?st < 60000 \<and> 60000 - windowStart ?st \<ge> 60000"
    using l by simp
  note run = checkRateLimit_spec [where pf = examplePlatform, THEN conjunct2, THEN conjunct2,
      rule_format, OF h3]
  have h1: "RATE_LIMIT_PER_MINUTE cfgStrict = Finite 2 \<and> (0::int) < 2 \<and>
    \<lparr> windowStart = 60000, count = 0 \<rparr> =
      (if 60000 - windowStart \<lparr> windowStart = 0, count = 2 \<rparr> \<ge> 60000
       then \<lparr> windowStart = 0, count = 2 \<rparr>\<lparr>windowStart := 60000, count := 0\<rparr>
       else \<lparr> windowStart = 0, count = 2 \<rparr>)"
    using l by simp
  have roll: "checkRateLimit examplePlatform cfgStrict 60000 \<lparr> windowStart = 0, count = 2 \<rparr> =
     (Inr (), \<lparr> windowStart = 60000, count = 1 \<rparr>)"
    using checkRateLimit_spec [where pf = examplePlatform, THEN conjunct1, rule_format, OF h1,
      THEN conjunct2] by simp
  have off0: "RATE_LIMIT_PER_MINUTE (cfgOff (Finite 0)) = Finite 0" by (simp add: cfgOff_def)
  have offN: "RATE_LIMIT_PER_MINUTE (cfgOff NaN) = NaN" by (simp add: cfgOff_def)
  have d0: "checkRateLimit examplePlatform (cfgOff (Finite 0)) 60000 \<lparr> windowStart = 0, count = 7 \<rparr> =
     (Inr (), \<lparr> windowStart = 0, count = 7 \<rparr>)"
    using checkRateLimit_spec [where cfg = "cfgOff (Finite 0)" and l = 0 and pf = examplePlatform,
      THEN conjunct2, THEN conjunct1, rule_format] off0 by simp
  have dN: "checkRateLimit examplePlatform (cfgOff NaN) 60000 \<lparr> windowStart = 0, count = 7 \<rparr> =
     (Inr (), \<lparr> windowStart = 0, count = 7 \<rparr>)"
    using checkRateLimit_spec [where cfg = "cfgOff NaN" and pf = examplePlatform,
      THEN conjunct2, THEN conjunct1, rule_format] offN by simp
  from l run roll off0 offN d0 dN two show ?thesis
    by (simp add: js_def)
qed

section \<open>The handler\<close>

lemma transportStep_eq:
  "transportStep w n s =
     (case sendMail w (theMailOptions w n) of
        Resolved messageId \<Rightarrow>
          (Inr (successText n),
           s\<lparr>lastSendResult := Some (SendSuccess (nowAtRecord w) messageId)\<rparr>, [theMailOptions w n])
      | Rejected msg \<Rightarrow>
          (Inl (McpError InternalError (js ''Failed to send email: '' @ msg)),
           s\<lparr>lastSendResult := Some (SendError (nowAtRecord w) msg)\<rparr>, [theMailOptions w n]))"
  by (simp add: transportStep_def EmailService_sendEmail_def theMailOptions_def Let_def
      split: transportAnswer.splits)

lemma sendEmailTool_admission:
  "sendEmailTool pf cfg w args s =
     (case admission pf cfg w args s of
        Inl (e, s') \<Rightarrow> (Inl e, s', [])
      | Inr (n, s') \<Rightarrow> transportStep w n s')"
  by (simp add: sendEmailTool_def admission_def split: sum.splits prod.splits)

lemma admission_lastSendResult:
  "admission pf cfg w args s = Inl (e, s') \<Longrightarrow> lastSendResult s' = lastSendResult s"
  "admission pf cfg w args s = Inr (n, s') \<Longrightarrow> lastSendResult s' = lastSendResult s"
  by (auto simp: admission_def split: sum.splits prod.splits if_splits)

lemma callTool_cases:
  assumes "callTool pf cfg w name args s = (r, s', sent)"
  shows "(sent = [] \<and> lastSendResult s' = lastSendResult s \<and>
          (name = SEND_TOOL_NAME \<longrightarrow> (\<exists>e. r = Inl e \<and> admission pf cfg w args s = Inl (e, s')))) \<or>
         (\<exists>n s1. name = SEND_TOOL_NAME \<and> admission pf cfg w args s = Inr (n, s1) \<and>
            sent = [theMailOptions w n] \<and>
            (case sendMail w (theMailOptions w n) of
               Resolved messageId \<Rightarrow> r = Inr (successText n) \<and>
                 s' = s1\<lparr>lastSendResult := Some (SendSuccess (nowAtRecord w) messageId)\<rparr>
             | Rejected msg \<Rightarrow> r = Inl (McpError InternalError (js ''Failed to send email: '' @ msg)) \<and>
                 s' = s1\<lparr>lastSendResult := Some (SendError (nowAtRecord w) msg)\<rparr>))"
proof (cases "name = SEND_TOOL_NAME")
  case False
  with assms have "sent = [] \<and> s' = s" by (auto simp: callTool_def split: if_splits)
  with False show ?thesis by simp
next
  case True
  show ?thesis
  proof (cases "admission pf cfg w args s")
    case (Inl a)
    obtain e s0 where a: "a = (e, s0)" by (cases a)
    with Inl assms True have "r = Inl e" "s' = s0" "sent = []"
      by (simp_all add: callTool_send sendEmailTool_admission)
    with Inl a admission_lastSendResult(1) [of pf cfg w args s e s0] True show ?thesis by simp
  next
    case (Inr b)
    obtain n s1 where b: "b = (n, s1)" by (cases b)
    with Inr assms True have "transportStep w n s1 = (r, s', sent)"
      by (simp add: callTool_send sendEmailTool_admission)
    then have "sent = [theMailOptions w n] \<and>
            (case sendMail w (theMailOptions w n) of
               Resolved messageId \<Rightarrow> r = Inr (successText n) \<and>
                 s' = s1\<lparr>lastSendResult := Some (SendSuccess (nowAtRecord w) messageId)\<rparr>
             | Rejected msg \<Rightarrow> r = Inl (McpError InternalError (js ''Failed to send email: '' @ msg)) \<and>
                 s' = s1\<lparr>lastSendResult := Some (SendError (nowAtRecord w) msg)\<rparr>)"
      by (auto simp: transportStep_eq split: transportAnswer.splits)
    with Inr b True show ?thesis by blast
  qed
qed

lemma callTool_frame:
  "callTool pf cfg w name args s = (r, s', []) \<Longrightarrow> lastSendResult s' = lastSendResult s"
  using callTool_cases [of pf cfg w name args s r s' "[]"] by auto

lemma runCalls_frame:
  "runCalls pf cfg cs s = (s', []) \<Longrightarrow> lastSendResult s' = lastSendResult s"
proof (induction cs arbitrary: s)
  case Nil
  then show ?case by simp
next
  case (Cons c cs)
  obtain r s1 sent where c: "callTool pf cfg (callWorld c) (callName c) (callArguments c) s = (r, s1, sent)"
    by (metis prod_cases3)
  obtain s2 sent' where r: "runCalls pf cfg cs s1 = (s2, sent')" by (metis surj_pair)
  from Cons.prems c r have "s2 = s'" "sent = []" "sent' = []" by simp_all
  with c r Cons.IH [of s1] callTool_frame [of pf cfg "callWorld c" "callName c" "callArguments c" s r s1]
  show ?case by simp
qed

lemma runCalls_health:
  "(\<And>c. c \<in> set cs \<Longrightarrow> callName c = HEALTH_TOOL_NAME) \<Longrightarrow> runCalls pf cfg cs s = (s, [])"
  by (induction cs) (simp_all add: callTool_health)

lemma health_last_line:
  "callTool pf cfg w HEALTH_TOOL_NAME args s =
     (Inr (join [LF] [js ''SMTP: '' @ smtpStatus (verify w), js ''Rate limit: '' @ rateLimitInfo pf cfg s,
                      js ''Allow list: '' @ allowListInfo pf cfg,
                      js ''Last send: '' @ lastSendInfo pf (lastSendResult s)]), s, [])"
  by (simp add: callTool_health buildHealthReport_def)

lemma admission_Inl_iff:
  "(\<exists>e s'. admission pf cfg w args s = Inl (e, s')) \<longleftrightarrow>
     args = NoArguments \<or>
     (\<exists>e. parseSendEmailArgs pf args = Inl e) \<or>
     (\<exists>p e. parseSendEmailArgs pf args = Inr p \<and> normalizeEmailArgs p = Inl e) \<or>
     (\<exists>p n e. parseSendEmailArgs pf args = Inr p \<and> normalizeEmailArgs p = Inr n \<and>
        enforceAllowList pf cfg (n_to n @ n_cc n @ n_bcc n) = Inl e) \<or>
     (\<exists>e. fst (checkRateLimit pf cfg (nowAtLimit w) (limiter s)) = Inl e)"
  by (auto simp: admission_def split: sum.splits prod.splits if_splits)

text \<open>Runs of the handler on the example inputs.\<close>

lemmas run_defs =
  callTool_def sendEmailTool_def parseSendEmailArgs_def sendEmailSchema_parse_def
  zodString_def zodOptionalString_def zodOptionalBoolean_def issueText_def
  normalizeEmailArgs_def normalizeRecipientList_def sanitizeHeaderField_def
  HEADER_INJECTION_PATTERN_test_def newlineMessage_def split_on_def trim_def isWhiteSpace_def
  enforceAllowList_def allowListEnabled_def Set_size_def Set_has_def formatRecipientField_def
  checkRateLimit_def rateLimitMessage_def transportStep_def EmailService_sendEmail_def
  successText_def buildHealthReport_def smtpStatus_def rateLimitInfo_def allowListInfo_def
  lastSendInfo_def SEND_TOOL_NAME_def HEALTH_TOOL_NAME_def

lemmas example_defs =
  examplePlatform_def asciiLower_def showInt_def decimal.simps state0_def state1_def state2_def state3_def
  worldOk_def worldDown_def cfgOpen_def cfgStrict_def cfgOff_def mail_def healthCall_def
  sendCall_def options1_def js_def CR_def LF_def comma_def apostrophe_def

lemma run_send_ok:
  "callTool examplePlatform cfgOpen worldOk SEND_TOOL_NAME
     (PlainObject (mail (js ''a@x.com'') (js ''Hi'') JUndefined)) state0 =
   (Inr (js ''Email sent successfully to a@x.com.''), state1, [options1])"
  by (simp add: run_defs example_defs)

lemma run_send_down:
  "callTool examplePlatform cfgOpen worldDown SEND_TOOL_NAME
     (PlainObject (mail (js ''a@x.com'') (js ''Hi'') JUndefined)) state1 =
   (Inl (McpError InternalError (js ''Failed to send email: Connection timeout'')), state2, [options1])"
  by (simp add: run_defs example_defs)

lemma run_health_1:
  "callTool examplePlatform cfgOpen worldDown HEALTH_TOOL_NAME NoArguments state1 =
   (Inr (js ''SMTP: error: Connection timeout'' @ [LF] @
         js ''Rate limit: 1/10 in current minute window'' @ [LF] @
         js ''Allow list: disabled'' @ [LF] @
         js ''Last send: success at T1200 (id-1)''), state1, [])"
  by (simp add: run_defs example_defs)


lemma run_health_2:
  "callTool examplePlatform cfgOpen worldOk HEALTH_TOOL_NAME NoArguments state2 =
   (Inr (js ''SMTP: ok'' @ [LF] @
         js ''Rate limit: 2/10 in current minute window'' @ [LF] @
         js ''Allow list: disabled'' @ [LF] @
         js ''Last send: error at T2500: Connection timeout''), state2, [])"
  by (simp add: run_defs example_defs)

lemma run_blank_to:
  "callTool examplePlatform cfgOpen worldOk SEND_TOOL_NAME
     (PlainObject (mail (js '' , '') (js ''Hi'') JUndefined)) state1 =
   (Inl (McpError InvalidParams (js ''At least one recipient is required'')), state1, [])"
  by (simp add: run_defs example_defs)

lemma run_later:
  "runCalls examplePlatform cfgOpen
     [healthCall worldDown, sendCall worldOk (mail (js '' , '') (js ''Hi'') JUndefined)] state1 =
   (state1, [])"
proof -
  have 1: "callTool examplePlatform cfgOpen (callWorld (healthCall worldDown))
      (callName (healthCall worldDown)) (callArguments (healthCall worldDown)) state1 =
      (Inr (buildHealthReport examplePlatform cfgOpen worldDown state1), state1, [])"
    by (simp add: healthCall_def callTool_health)
  have 2: "callTool examplePlatform cfgOpen
      (callWorld (sendCall worldOk (mail (js '' , '') (js ''Hi'') JUndefined)))
      (callName (sendCall worldOk (mail (js '' , '') (js ''Hi'') JUndefined)))
      (callArguments (sendCall worldOk (mail (js '' , '') (js ''Hi'') JUndefined))) state1 =
      (Inl (McpError InvalidParams (js ''At least one recipient is required'')), state1, [])"
    using run_blank_to by (simp add: sendCall_def)
  show ?thesis by (simp add: 1 2)
qed

text \<open>
  Claim C6.  A call that reaches the transporter is a \<open>send_email\<close> call and makes one
  call of \<open>sendMail\<close>.  When the transporter resolves, \<open>lastSendResult\<close> becomes a success
  record with the clock reading and the \<open>messageId\<close> of the answer (if it has one), and the
  call succeeds.  When it rejects, \<open>lastSendResult\<close> becomes an error record with the clock
  reading and the text of the failure, and the call fails with an \<open>InternalError\<close> whose
  message is \<open>Failed to send email: \<close> followed by that text.  After any further calls
  that do not reach the transporter, \<open>lastSendResult\<close> is still that record and the last
  line of the \<open>health_check\<close> report shows that outcome and that time.
\<close>

theorem send_outcome_recorded:
  assumes "callTool pf cfg w name args s = (r, s', sent)" and "sent \<noteq> []"
  shows "\<exists>opts. sent = [opts] \<and> name = SEND_TOOL_NAME \<and>
     (case sendMail w opts of
        Resolved messageId \<Rightarrow>
          lastSendResult s' = Some (SendSuccess (nowAtRecord w) messageId) \<and> (\<exists>text. r = Inr text)
      | Rejected msg \<Rightarrow>
          lastSendResult s' = Some (SendError (nowAtRecord w) msg) \<and>
          r = Inl (McpError InternalError (js ''Failed to send email: '' @ msg))) \<and>
     (\<forall>later s'' w' args'. runCalls pf cfg later s' = (s'', []) \<longrightarrow>
        lastSendResult s'' = lastSendResult s' \<and>
        (\<exists>l1 l2 l3. callTool pf cfg w' HEALTH_TOOL_NAME args' s'' =
           (Inr (join [LF] [l1, l2, l3, js ''Last send: '' @
              (case sendMail w opts of
                 Resolved messageId \<Rightarrow>
                   js ''success at '' @ toISOString pf (nowAtRecord w) @
                   (case messageId of None \<Rightarrow> []
                    | Some d \<Rightarrow> if d = [] then [] else js '' ('' @ d @ js '')'')
               | Rejected msg \<Rightarrow>
                   js ''error at '' @ toISOString pf (nowAtRecord w) @ js '': '' @ msg)]),
            s'', [])))"
proof -
  from callTool_cases [OF assms(1)] assms(2) obtain n s1 where
    name: "name = SEND_TOOL_NAME" and sent: "sent = [theMailOptions w n]" and
    out: "case sendMail w (theMailOptions w n) of
               Resolved messageId \<Rightarrow> r = Inr (successText n) \<and>
                 s' = s1\<lparr>lastSendResult := Some (SendSuccess (nowAtRecord w) messageId)\<rparr>
             | Rejected msg \<Rightarrow> r = Inl (McpError InternalError (js ''Failed to send email: '' @ msg)) \<and>
                 s' = s1\<lparr>lastSendResult := Some (SendError (nowAtRecord w) msg)\<rparr>"
    by auto
  let ?opts = "theMailOptions w n"
  have rec: "case sendMail w ?opts of
        Resolved messageId \<Rightarrow>
          lastSendResult s' = Some (SendSuccess (nowAtRecord w) messageId) \<and> (\<exists>text. r = Inr text)
      | Rejected msg \<Rightarrow>
          lastSendResult s' = Some (SendError (nowAtRecord w) msg) \<and>
          r = Inl (McpError InternalError (js ''Failed to send email: '' @ msg))"
    using out by (auto split: transportAnswer.splits)
  have info: "lastSendInfo pf (lastSendResult s') =
      (case sendMail w ?opts of
         Resolved messageId \<Rightarrow>
           js ''success at '' @ toISOString pf (nowAtRecord w) @
           (case messageId of None \<Rightarrow> []
            | Some d \<Rightarrow> if d = [] then [] else js '' ('' @ d @ js '')'')
       | Rejected msg \<Rightarrow>
           js ''error at '' @ toISOString pf (nowAtRecord w) @ js '': '' @ msg)"
    using rec by (auto simp: lastSendInfo_def split: transportAnswer.splits)
  have later: "\<forall>later s'' w' args'. runCalls pf cfg later s' = (s'', []) \<longrightarrow>
        lastSendResult s'' = lastSendResult s' \<and>
        (\<exists>l1 l2 l3. callTool pf cfg w' HEALTH_TOOL_NAME args' s'' =
           (Inr (join [LF] [l1, l2, l3, js ''Last send: '' @
              (case sendMail w ?opts of
                 Resolved messageId \<Rightarrow>
                   js ''success at '' @ toISOString pf (nowAtRecord w) @
                   (case messageId of None \<Rightarrow> []
                    | Some d \<Rightarrow> if d = [] then [] else js '' ('' @ d @ js '')'')
               | Rejected msg \<Rightarrow>
                   js ''error at '' @ toISOString pf (nowAtRecord w) @ js '': '' @ msg)]),
            s'', []))"
  proof (intro allI impI)
    fix later s'' w' args'
    assume "runCalls pf cfg later s' = (s'', [])"
    then have eq: "lastSendResult s'' = lastSendResult s'" by (rule runCalls_frame)
    have "callTool pf cfg w' HEALTH_TOOL_NAME args' s'' =
       (Inr (join [LF] [js ''SMTP: '' @ smtpStatus (verify w'), js ''Rate limit: '' @ rateLimitInfo pf cfg s'',
                      js ''Allow list: '' @ allowListInfo pf cfg,
                      js ''Last send: '' @ lastSendInfo pf (lastSendResult s')]), s'', [])"
      unfolding eq [symmetric] by (rule health_last_line)
    then show "lastSendResult s'' = lastSendResult s' \<and>
        (\<exists>l1 l2 l3. callTool pf cfg w' HEALTH_TOOL_NAME args' s'' =
           (Inr (join [LF] [l1, l2, l3, js ''Last send: '' @
              (case sendMail w ?opts of
                 Resolved messageId \<Rightarrow>
                   js ''success at '' @ toISOString pf (nowAtRecord w) @
                   (case messageId of None \<Rightarrow> []
                    | Some d \<Rightarrow> if d = [] then [] else js '' ('' @ d @ js '')'')
               | Rejected msg \<Rightarrow>
                   js ''error at '' @ toISOString pf (nowAtRecord w) @ js '': '' @ msg)]),
            s'', []))"
      unfolding info [symmetric] using eq by blast
  qed
  from sent name rec later show ?thesis by blast
qed

theorem send_outcome_recorded_witness:
  "callTool examplePlatform cfgOpen worldOk SEND_TOOL_NAME
     (PlainObject (mail (js ''a@x.com'') (js ''Hi'') JUndefined)) state0 =
     (Inr (js ''Email sent successfully to a@x.com.''), state1, [options1]) \<and>
   [options1] \<noteq> [] \<and>
   sendMail worldOk options1 = Resolved (Some (js ''id-1'')) \<and>
   lastSendResult state1 = Some (SendSuccess (nowAtRecord worldOk) (Some (js ''id-1''))) \<and>
   runCalls examplePlatform cfgOpen
     [healthCall worldDown, sendCall worldOk (mail (js '' , '') (js ''Hi'') JUndefined)] state1 =
     (state1, []) \<and>
   (\<exists>l1 l2 l3. callTool examplePlatform cfgOpen worldDown HEALTH_TOOL_NAME NoArguments state1 =
     (Inr (join [LF] [l1, l2, l3, js ''Last send: success at T1200 (id-1)'']), state1, [])) \<and>
   callTool examplePlatform cfgOpen worldDown HEALTH_TOOL_NAME NoArguments state1 =
     (Inr (js ''SMTP: error: Connection timeout'' @ [LF] @
           js ''Rate limit: 1/10 in current minute window'' @ [LF] @
           js ''Allow list: disabled'' @ [LF] @
           js ''Last send: success at T1200 (id-1)''), state1, []) \<and>
   callTool examplePlatform cfgOpen worldDown SEND_TOOL_NAME
     (PlainObject (mail (js ''a@x.com'') (js ''Hi'') JUndefined)) state1 =
     (Inl (McpError InternalError (js ''Failed to send email: Connection timeout'')), state2, [options1]) \<and>
   sendMail worldDown options1 = Rejected (js ''Connection timeout'') \<and>
   lastSendResult state2 = Some (SendError (nowAtRecord worldDown) (js ''Connection timeout'')) \<and>
   (\<exists>l1 l2 l3. callTool examplePlatform cfgOpen worldOk HEALTH_TOOL_NAME NoArguments state2 =
     (Inr (join [LF] [l1, l2, l3, js ''Last send: error at T2500: Connection timeout'']), state2, [])) \<and>
   callTool examplePlatform cfgOpen worldOk HEALTH_TOOL_NAME NoArguments state2 =
     (Inr (js ''SMTP: ok'' @ [LF] @
           js ''Rate limit: 2/10 in current minute window'' @ [LF] @
           js ''Allow list: disabled'' @ [LF] @
           js ''Last send: error at T2500: Connection timeout''), state2, [])"
proof -
  have ne: "[options1] \<noteq> []" by simp
  have a1: "sendMail worldOk options1 = Resolved (Some (js ''id-1''))" by (simp add: worldOk_def)
  have a2: "sendMail worldDown options1 = Rejected (js ''Connection timeout'')"
    by (simp add: worldDown_def)
  have t1: "js ''Last send: '' @ js ''success at '' @ toISOString examplePlatform (nowAtRecord worldOk) @
      js '' ('' @ js ''id-1'' @ js '')'' = js ''Last send: success at T1200 (id-1)''"
    by (simp add: example_defs)
  have t2: "js ''Last send: '' @ js ''error at '' @ toISOString examplePlatform (nowAtRecord worldDown) @
      js '': '' @ js ''Connection timeout'' = js ''Last send: error at T2500: Connection timeout''"
    by (simp add: example_defs)
  have n: "js ''id-1'' \<noteq> []" by (simp add: js_def)
  have empty: "runCalls examplePlatform cfgOpen [] state2 = (state2, [])" by simp
  from send_outcome_recorded [OF run_send_ok ne]
  have r1: "lastSendResult state1 = Some (SendSuccess (nowAtRecord worldOk) (Some (js ''id-1'')))"
    and l1: "\<And>later s'' w' args'. runCalls examplePlatform cfgOpen later state1 = (s'', []) \<Longrightarrow>
        \<exists>l1 l2 l3. callTool examplePlatform cfgOpen w' HEALTH_TOOL_NAME args' s'' =
           (Inr (join [LF] [l1, l2, l3, js ''Last send: '' @ js ''success at '' @
              toISOString examplePlatform (nowAtRecord worldOk) @ js '' ('' @ js ''id-1'' @ js '')'']),
            s'', [])"
    using a1 n by auto
  from send_outcome_recorded [OF run_send_down ne]
  have r2: "lastSendResult state2 = Some (SendError (nowAtRecord worldDown) (js ''Connection timeout''))"
    and l2: "\<And>later s'' w' args'. runCalls examplePlatform cfgOpen later state2 = (s'', []) \<Longrightarrow>
        \<exists>l1 l2 l3. callTool examplePlatform cfgOpen w' HEALTH_TOOL_NAME args' s'' =
           (Inr (join [LF] [l1, l2, l3, js ''Last send: '' @ js ''error at '' @
              toISOString examplePlatform (nowAtRecord worldDown) @ js '': '' @ js ''Connection timeout'']),
            s'', [])"
    using a2 by auto
  note h1 = l1 [OF run_later, of worldDown NoArguments, unfolded t1]
  note h2 = l2 [OF empty, of worldOk NoArguments, unfolded t2]
  from run_send_ok ne a1 r1 run_later h1 run_health_1 run_send_down a2 r2 h2 run_health_2
  show ?thesis by blast
qed

text \<open>
  Claim C7.  A \<open>health_check\<close> call always returns a report, changes no state and makes no
  call of \<open>sendMail\<close>.  When the \<open>verify\<close> probe fails with a message, the first line of
  the report is \<open>SMTP: error: \<close> followed by the message, and the lines for the rate
  limit, the allow list and the last send are the same as when the probe succeeds.
\<close>

theorem health_check_never_fails:
  "(\<exists>report. callTool pf cfg w HEALTH_TOOL_NAME args s = (Inr report, s, [])) \<and>
   (verify w = Some msg \<longrightarrow>
      callTool pf cfg w HEALTH_TOOL_NAME args s =
        (Inr (join [LF] [js ''SMTP: error: '' @ msg,
                         js ''Rate limit: '' @ rateLimitInfo pf cfg s,
                         js ''Allow list: '' @ allowListInfo pf cfg,
                         js ''Last send: '' @ lastSendInfo pf (lastSendResult s)]), s, [])) \<and>
   (verify w = None \<longrightarrow>
      callTool pf cfg w HEALTH_TOOL_NAME args s =
        (Inr (join [LF] [js ''SMTP: ok'',
                         js ''Rate limit: '' @ rateLimitInfo pf cfg s,
                         js ''Allow list: '' @ allowListInfo pf cfg,
                         js ''Last send: '' @ lastSendInfo pf (lastSendResult s)]), s, []))"
  by (simp add: health_last_line smtpStatus_def js_def)

theorem health_check_never_fails_witness:
  "verify worldDown = Some (js ''Connection timeout'') \<and>
   callTool examplePlatform cfgStrict worldDown HEALTH_TOOL_NAME NoArguments state0 =
     (Inr (js ''SMTP: error: Connection timeout'' @ [LF] @
           js ''Rate limit: 0/2 in current minute window'' @ [LF] @
           js ''Allow list: enabled (1 entries)'' @ [LF] @
           js ''Last send: no attempts yet''), state0, []) \<and>
   verify worldOk = None \<and>
   callTool examplePlatform cfgStrict worldOk HEALTH_TOOL_NAME NoArguments state0 =
     (Inr (js ''SMTP: ok'' @ [LF] @
           js ''Rate limit: 0/2 in current minute window'' @ [LF] @
           js ''Allow list: enabled (1 entries)'' @ [LF] @
           js ''Last send: no attempts yet''), state0, [])"
proof -
  have v1: "verify worldDown = Some (js ''Connection timeout'')" by (simp add: worldDown_def)
  have v2: "verify worldOk = None" by (simp add: worldOk_def)
  have i: "rateLimitInfo examplePlatform cfgStrict state0 = js ''0/2 in current minute window''"
    "allowListInfo examplePlatform cfgStrict = js ''enabled (1 entries)''"
    "lastSendInfo examplePlatform (lastSendResult state0) = js ''no attempts yet''"
    by (simp_all add: rateLimitInfo_def allowListInfo_def lastSendInfo_def allowListEnabled_def
        Set_size_def example_defs)
  note t = health_check_never_fails [where pf = examplePlatform and cfg = cfgStrict and s = state0
      and args = NoArguments]
  from t [where w = worldDown, THEN conjunct2, THEN conjunct1, rule_format, OF v1]
  have c1: "callTool examplePlatform cfgStrict worldDown HEALTH_TOOL_NAME NoArguments state0 =
     (Inr (js ''SMTP: error: Connection timeout'' @ [LF] @
           js ''Rate limit: 0/2 in current minute window'' @ [LF] @
           js ''Allow list: enabled (1 entries)'' @ [LF] @
           js ''Last send: no attempts yet''), state0, [])"
    unfolding i by (simp add: js_def)
  from t [where w = worldOk and msg = "[]", THEN conjunct2, THEN conjunct2, rule_format, OF v2]
  have c2: "callTool examplePlatform cfgStrict worldOk HEALTH_TOOL_NAME NoArguments state0 =
     (Inr (js ''SMTP: ok'' @ [LF] @
           js ''Rate limit: 0/2 in current minute window'' @ [LF] @
           js ''Allow list: enabled (1 entries)'' @ [LF] @
           js ''Last send: no attempts yet''), state0, [])"
    unfolding i by (simp add: js_def)
  from v1 c1 v2 c2 show ?thesis by blast
qed

text \<open>
  Claim C9.  Any number of \<open>health_check\<close> calls in a row, whatever their probes answer,
  leave \<open>windowStart\<close>, \<open>count\<close> and \<open>lastSendResult\<close> as they were.
\<close>

theorem health_check_changes_nothing:
  assumes "\<forall>c\<in>set calls. callName c = HEALTH_TOOL_NAME"
  shows "fst (runCalls pf cfg calls s) = s \<and>
         windowStart (limiter (fst (runCalls pf cfg calls s))) = windowStart (limiter s) \<and>
         count (limiter (fst (runCalls pf cfg calls s))) = count (limiter s) \<and>
         lastSendResult (fst (runCalls pf cfg calls s)) = lastSendResult s \<and>
         snd (runCalls pf cfg calls s) = []"
  using assms by (simp add: runCalls_health)

theorem health_check_changes_nothing_witness:
  "list_all (\<lambda>c. callName c = HEALTH_TOOL_NAME)
     [healthCall worldOk, healthCall worldDown, healthCall worldOk] \<and>
   fst (runCalls examplePlatform cfgStrict
     [healthCall worldOk, healthCall worldDown, healthCall worldOk] state1) = state1 \<and>
   windowStart (limiter (fst (runCalls examplePlatform cfgStrict
     [healthCall worldOk, healthCall worldDown, healthCall worldOk] state1))) = 0 \<and>
   count (limiter (fst (runCalls examplePlatform cfgStrict
     [healthCall worldOk, healthCall worldDown, healthCall worldOk] state1))) = 1 \<and>
   lastSendResult (fst (runCalls examplePlatform cfgStrict
     [healthCall worldOk, healthCall worldDown, healthCall worldOk] state1)) =
     Some (SendSuccess 1200 (Some (js ''id-1'')))"
proof -
  let ?calls = "[healthCall worldOk, healthCall worldDown, healthCall worldOk]"
  have h: "\<forall>c\<in>set ?calls. callName c = HEALTH_TOOL_NAME" by (simp add: healthCall_def)
  have s: "windowStart (limiter state1) = 0" "count (limiter state1) = 1"
    "lastSendResult state1 = Some (SendSuccess 1200 (Some (js ''id-1'')))"
    by (simp_all add: state1_def)
  from health_check_changes_nothing [OF h, of examplePlatform cfgStrict state1] h s
  show ?thesis by (simp add: list_all_iff)
qed

text \<open>
  Claim C10.  A \<open>send_email\<close> call makes no call of \<open>sendMail\<close> exactly when the
  arguments are missing, the schema rejects them, normalization fails (a newline in a
  header field or no recipient), the allow list rejects a recipient, or the rate limiter
  rejects the call.  Such a call fails and leaves \<open>lastSendResult\<close> as it was, so that the
  last line of a \<open>health_check\<close> report is what it was before; \<open>lastSendResult\<close> changes
  only in a call that reaches the transporter.
\<close>

theorem rejected_send_not_recorded:
  assumes "callTool pf cfg w SEND_TOOL_NAME args s = (r, s', sent)"
  shows "(sent = [] \<longleftrightarrow>
            args = NoArguments \<or>
            (\<exists>e. parseSendEmailArgs pf args = Inl e) \<or>
            (\<exists>p e. parseSendEmailArgs pf args = Inr p \<and> normalizeEmailArgs p = Inl e) \<or>
            (\<exists>p n e. parseSendEmailArgs pf args = Inr p \<and> normalizeEmailArgs p = Inr n \<and>
               enforceAllowList pf cfg (n_to n @ n_cc n @ n_bcc n) = Inl e) \<or>
            (\<exists>e. fst (checkRateLimit pf cfg (nowAtLimit w) (limiter s)) = Inl e)) \<and>
         (sent = [] \<longrightarrow>
            (\<exists>e. r = Inl e) \<and> lastSendResult s' = lastSendResult s \<and>
            (\<forall>w' args'. \<exists>l1 l2 l3. callTool pf cfg w' HEALTH_TOOL_NAME args' s' =
               (Inr (join [LF] [l1, l2, l3, js ''Last send: '' @ lastSendInfo pf (lastSendResult s)]),
                s', []))) \<and>
         (lastSendResult s' \<noteq> lastSendResult s \<longrightarrow> sent \<noteq> [])"
proof -
  note cases = callTool_cases [OF assms]
  have a: "sent = [] \<longleftrightarrow> (\<exists>e s1. admission pf cfg w args s = Inl (e, s1))"
    using cases by auto
  have b: "sent = [] \<longrightarrow> (\<exists>e. r = Inl e) \<and> lastSendResult s' = lastSendResult s"
    using cases by auto
  have c: "sent = [] \<longrightarrow> (\<forall>w' args'. \<exists>l1 l2 l3. callTool pf cfg w' HEALTH_TOOL_NAME args' s' =
               (Inr (join [LF] [l1, l2, l3, js ''Last send: '' @ lastSendInfo pf (lastSendResult s)]),
                s', []))"
  proof (intro impI allI)
    fix w' args'
    assume "sent = []"
    with b have eq: "lastSendResult s' = lastSendResult s" by simp
    show "\<exists>l1 l2 l3. callTool pf cfg w' HEALTH_TOOL_NAME args' s' =
               (Inr (join [LF] [l1, l2, l3, js ''Last send: '' @ lastSendInfo pf (lastSendResult s)]),
                s', [])"
      unfolding eq [symmetric] using health_last_line by blast
  qed
  from a b c show ?thesis unfolding admission_Inl_iff by blast
qed

theorem rejected_send_not_recorded_witness:
  "callTool examplePlatform cfgStrict worldOk SEND_TOOL_NAME
     (PlainObject (mail (js ''a@x.com'') (js ''Hi'') JUndefined)) state3 =
     (Inl (McpError InvalidRequest (js ''Rate limit exceeded (2 emails per minute)'')), state3, []) \<and>
   fst (checkRateLimit examplePlatform cfgStrict (nowAtLimit worldOk) (limiter state3)) =
     Inl (McpError InvalidRequest (js ''Rate limit exceeded (2 emails per minute)'')) \<and>
   lastSendResult state3 = Some (SendSuccess 1200 (Some (js ''id-1''))) \<and>
   (\<exists>l1 l2 l3. callTool examplePlatform cfgStrict worldDown HEALTH_TOOL_NAME NoArguments state3 =
     (Inr (join [LF] [l1, l2, l3,
        js ''Last send: '' @ lastSendInfo examplePlatform (lastSendResult state3)]), state3, [])) \<and>
   callTool examplePlatform cfgStrict worldOk HEALTH_TOOL_NAME NoArguments state3 =
     (Inr (js ''SMTP: ok'' @ [LF] @
           js ''Rate limit: 2/2 in current minute window'' @ [LF] @
           js ''Allow list: enabled (1 entries)'' @ [LF] @
           js ''Last send: success at T1200 (id-1)''), state3, []) \<and>
   callTool examplePlatform cfgStrict worldOk SEND_TOOL_NAME
     (PlainObject (mail (js ''a@x.com'') (js ''Hi'') (JString (js ''b@x.com'')))) state1 =
     (Inl (McpError InvalidRequest (js ''Recipient(s) not permitted by allow list: b@x.com'')),
      state1, []) \<and>
   callTool examplePlatform cfgStrict worldOk SEND_TOOL_NAME NoArguments state1 =
     (Inl (McpError InvalidParams (js ''Invalid arguments'')), state1, []) \<and>
   callTool examplePlatform cfgStrict worldOk SEND_TOOL_NAME
     (PlainObject (mail (js ''a@x.com'') [] JUndefined)) state1 =
     (Inl (McpError InvalidParams
        (js ''subject: '' @ [apostrophe] @ js ''subject'' @ [apostrophe] @ js '' is required'')),
      state1, []) \<and>
   callTool examplePlatform cfgStrict worldOk SEND_TOOL_NAME
     (PlainObject (mail (js ''a@x.com'' @ [LF]) (js ''Hi'') JUndefined)) state1 =
     (Inl (McpError InvalidParams (newlineMessage (js ''to''))), state1, [])"
proof -
  have run: "callTool examplePlatform cfgStrict worldOk SEND_TOOL_NAME
     (PlainObject (mail (js ''a@x.com'') (js ''Hi'') JUndefined)) state3 =
     (Inl (McpError InvalidRequest (js ''Rate limit exceeded (2 emails per minute)'')), state3, [])"
    by (simp add: run_defs example_defs)
  have lim: "fst (checkRateLimit examplePlatform cfgStrict (nowAtLimit worldOk) (limiter state3)) =
     Inl (McpError InvalidRequest (js ''Rate limit exceeded (2 emails per minute)''))"
    by (simp add: run_defs example_defs)
  have last: "lastSendResult state3 = Some (SendSuccess 1200 (Some (js ''id-1'')))"
    by (simp add: state3_def)
  from rejected_send_not_recorded [OF run]
  have kept: "\<exists>l1 l2 l3. callTool examplePlatform cfgStrict worldDown HEALTH_TOOL_NAME NoArguments state3 =
     (Inr (join [LF] [l1, l2, l3,
        js ''Last send: '' @ lastSendInfo examplePlatform (lastSendResult state3)]), state3, [])"
    by blast
  have health: "callTool examplePlatform cfgStrict worldOk HEALTH_TOOL_NAME NoArguments state3 =
     (Inr (js ''SMTP: ok'' @ [LF] @
           js ''Rate limit: 2/2 in current minute window'' @ [LF] @
           js ''Allow list: enabled (1 entries)'' @ [LF] @
           js ''Last send: success at T1200 (id-1)''), state3, [])"
    by (simp add: run_defs example_defs)
  have allow: "callTool examplePlatform cfgStrict worldOk SEND_TOOL_NAME
     (PlainObject (mail (js ''a@x.com'') (js ''Hi'') (JString (js ''b@x.com'')))) state1 =
     (Inl (McpError InvalidRequest (js ''Recipient(s) not permitted by allow list: b@x.com'')),
      state1, [])"
    by (simp add: run_defs example_defs)
  have noargs: "callTool examplePlatform cfgStrict worldOk SEND_TOOL_NAME NoArguments state1 =
     (Inl (McpError InvalidParams (js ''Invalid arguments'')), state1, [])"
    by (simp add: run_defs example_defs)
  have schema: "callTool examplePlatform cfgStrict worldOk SEND_TOOL_NAME
     (PlainObject (mail (js ''a@x.com'') [] JUndefined)) state1 =
     (Inl (McpError InvalidParams
        (js ''subject: '' @ [apostrophe] @ js ''subject'' @ [apostrophe] @ js '' is required'')),
      state1, [])"
    by (simp add: run_defs example_defs)
  have newline: "callTool examplePlatform cfgStrict worldOk SEND_TOOL_NAME
     (PlainObject (mail (js ''a@x.com'' @ [LF]) (js ''Hi'') JUndefined)) state1 =
     (Inl (McpError InvalidParams (newlineMessage (js ''to''))), state1, [])"
    by (simp add: run_defs example_defs)
  from run lim last kept health allow noargs schema newline show ?thesis by blast
qed

section \<open>Configuration: the minimum TLS version\<close>

lemma js_TLSv1_2_third: "allowedTlsVersions ! 2 = js ''TLSv1.2''"
  by (simp add: allowedTlsVersions_def)

text \<open>
  Claim C8, as amended.  A version string that is not one of the four recognised strings is
  replaced by \<open>"TLSv1.2"\<close>, which is the third entry of the list of recognised versions
  in ascending order (the second-newest one), not the second.
\<close>

theorem normalizeTlsVersion_default:
  "version \<notin> set allowedTlsVersions \<Longrightarrow>
     normalizeTlsVersion version = js ''TLSv1.2'' \<and>
     normalizeTlsVersion version = allowedTlsVersions ! 2 \<and>
     length allowedTlsVersions = 4"
  by (simp add: normalizeTlsVersion_def js_TLSv1_2_third) (simp add: allowedTlsVersions_def)

theorem normalizeTlsVersion_default_witness:
  "js ''SSLv3'' \<notin> set allowedTlsVersions \<and>
   normalizeTlsVersion (js ''SSLv3'') = js ''TLSv1.2'' \<and>
   normalizeTlsVersion (js ''SSLv3'') = allowedTlsVersions ! 2 \<and>
   length allowedTlsVersions = 4"
proof -
  have h: "js ''SSLv3'' \<notin> set allowedTlsVersions"
    by (simp add: allowedTlsVersions_def js_def)
  show ?thesis using h normalizeTlsVersion_default [OF h] by blast
qed

text \<open>
  Claim C8, as stated, fails: the unrecognised string \<open>"SSLv3"\<close> is not mapped to the
  second-oldest recognised version \<open>"TLSv1.1"\<close>.
\<close>

theorem normalizeTlsVersion_second_oldest_counterexample:
  "js ''SSLv3'' \<notin> set allowedTlsVersions \<and>
   allowedTlsVersions ! 1 = js ''TLSv1.1'' \<and>
   normalizeTlsVersion (js ''SSLv3'') \<noteq> allowedTlsVersions ! 1"
  by (simp add: normalizeTlsVersion_def allowedTlsVersions_def js_def)

end
